theory Spec2Isabelle
  imports Main
begin

section \<open>Errors\<close>

text \<open>
  A Go \<open>error\<close> value is either an \<open>azuredevops.WrappedError\<close> of the client library
  (with its \<open>StatusCode\<close> and \<open>Message\<close>) or the plain error that \<open>fmt.Errorf\<close> builds
  from a formatted message. \<open>Error\<close> is the method \<open>err.Error()\<close>, which is also what the
  verbs \<open>%v\<close> and \<open>%+v\<close> print for an error.
\<close>

datatype error =
    WrappedError "nat option" string
  | errorString string

fun Error :: "error \<Rightarrow> string" where
  "Error (WrappedError code msg) = msg"
| "Error (errorString msg) = msg"

definition StatusNotFound :: nat where
  "StatusNotFound = 404"

text \<open>
  Modelled from the spec: \<open>utils.ResponseWasNotFound\<close> (package \<open>internal/utils\<close>, whose
  source is not among the files at hand). The error classifier tells \<open>NotFound\<close> from every
  other failure by the status the remote response declares, never by the message text.
\<close>

fun ResponseWasNotFound :: "error \<Rightarrow> bool" where
  "ResponseWasNotFound (WrappedError (Some code) msg) = (code = StatusNotFound)"
| "ResponseWasNotFound (WrappedError None msg) = False"
| "ResponseWasNotFound (errorString msg) = False"

section \<open>The data of the remote API\<close>

text \<open>
  The structs of the client library have pointer fields. A field is kept as an \<open>option\<close>
  where the source tests it against \<open>nil\<close> or leaves it out of a request it builds; a field
  that the source dereferences without a test is taken to be present in every successful
  response and is modelled by its value.
\<close>

record ProjectReference =
  ProjectReference_Id :: string

record Feed =
  Feed_Id :: string
  Feed_Name :: string
  Feed_Project :: "ProjectReference option"

datatype ChangeType = AddOrUpdate | Delete

record FeedChange =
  FeedChange_ChangeType :: ChangeType

datatype Operation = Add | Remove | Replace | Move | Copy | Test

datatype json = JsonBool bool | JsonString string

record JsonPatchOperation =
  From :: "string option"
  Path :: string
  Op :: Operation
  Value :: json

datatype FeedRole = Custom | NoneRole | Reader | Contributor | Administrator | Collaborator

record FeedPermission =
  FeedPermission_DisplayName :: "string option"
  FeedPermission_IdentityDescriptor :: string
  FeedPermission_IdentityId :: "string option"
  FeedPermission_Role :: FeedRole

record Identity =
  Identity_Descriptor :: string
  Identity_Id :: string

datatype AuditStreamStatus =
  Unknown | Enabled | DisabledByUser | DisabledBySystem | Deleted | Backfilling

text \<open>
  \<open>AuditStream.Status\<close> is a pointer that the source compares with \<open>!=\<close>, and Go compares
  pointers by address. A status pointer is \<open>nil\<close>, or the address of a field of the package
  variable \<open>audit.AuditStreamStatusValues\<close> (\<open>AuditStreamStatusValues s\<close> is
  \<open>&audit.AuditStreamStatusValues.s\<close>), or the address \<open>a\<close> of a cell allocated when a
  response was decoded (\<open>decoded a s\<close>). No cell is ever written, so the value a pointer
  points to travels with it.
\<close>

datatype status_pointer =
    nil
  | AuditStreamStatusValues AuditStreamStatus
  | decoded nat AuditStreamStatus

fun deref :: "status_pointer \<Rightarrow> AuditStreamStatus option" where
  "deref nil = None"
| "deref (AuditStreamStatusValues s) = Some s"
| "deref (decoded a s) = Some s"

record AuditStream =
  AuditStream_Id :: "int option"
  AuditStream_Status :: status_pointer
  AuditStream_DisplayName :: "string option"

record GraphGroup =
  GraphGroup_Descriptor :: "string option"
  GraphGroup_Origin :: string
  GraphGroup_OriginId :: "string option"
  GraphGroup_DisplayName :: string
  GraphGroup_PrincipalName :: string
  GraphGroup_SubjectKind :: string

record AccessLevel =
  AccessLevel_AccountLicenseType :: string
  AccessLevel_LicensingSource :: string

record GroupEntitlement =
  GroupEntitlement_Id :: "string option"
  GroupEntitlement_LicenseRule :: AccessLevel
  GroupEntitlement_Group :: GraphGroup

record GroupOperationResult =
  GroupOperationResult_Errors :: "(string \<times> string) list option"
  GroupOperationResult_IsSuccess :: bool
  GroupOperationResult_Result :: "GroupEntitlement option"

section \<open>The Remote Gateway and the log of calls\<close>

text \<open>
  One constructor per request of the client library, named after its argument struct and
  carrying the arguments the source passes.
\<close>

datatype call =
    GetFeedArgs string string
  | CreateFeedArgs string string
  | UpdateFeedArgs string string
  | DeleteFeedArgs string string
  | PermanentDeleteFeedArgs string string
  | GetFeedChangeArgs string string
  | RestoreDeletedFeedArgs string string "JsonPatchOperation list"
  | GetFeedPermissionsArgs string string
  | SetFeedPermissionsArgs string string "FeedPermission list"
  | GetStorageKeyArgs string
  | ReadIdentityArgs string
  | CreateStreamArgs AuditStream int
  | QueryStreamByIdArgs int
  | UpdateStreamArgs AuditStream
  | DeleteStreamArgs int
  | UpdateStatusArgs "int option" AuditStreamStatus
  | AddGroupEntitlementArgs GroupEntitlement
  | GetGroupEntitlementArgs string

text \<open>
  The remote system has a state of its own, of some type \<open>'g\<close>; a request maps that state to a
  response and the next state. The world of one reconciliation is the remote state together
  with the requests issued so far, oldest first.
\<close>

record 'g world =
  remote :: 'g
  calls :: "call list"

definition invoke :: "call \<Rightarrow> ('g \<Rightarrow> 'r \<times> 'g) \<Rightarrow> 'g world \<Rightarrow> 'r \<times> 'g world" where
  "invoke c f w = (case f (remote w) of (r, g') \<Rightarrow> (r, \<lparr>remote = g', calls = calls w @ [c]\<rparr>))"

text \<open>The requests that follow the log \<open>before\<close> in the log \<open>after\<close>.\<close>

definition issued :: "'g world \<Rightarrow> 'g world \<Rightarrow> call list" where
  "issued before after = drop (length (calls before)) (calls after)"

text \<open>
  \<open>clients.FeedClient\<close>: each method takes the feed name (\<open>FeedId\<close>) and the project. A method
  returning only an \<open>error\<close> yields \<open>None\<close> for \<open>nil\<close>.
\<close>

record 'g FeedClient =
  GetFeed :: "string \<Rightarrow> string \<Rightarrow> 'g \<Rightarrow> (error + Feed option) \<times> 'g"
  CreateFeed :: "string \<Rightarrow> string \<Rightarrow> 'g \<Rightarrow> (error + Feed) \<times> 'g"
  UpdateFeed :: "string \<Rightarrow> string \<Rightarrow> 'g \<Rightarrow> (error + Feed) \<times> 'g"
  DeleteFeed :: "string \<Rightarrow> string \<Rightarrow> 'g \<Rightarrow> error option \<times> 'g"
  PermanentDeleteFeed :: "string \<Rightarrow> string \<Rightarrow> 'g \<Rightarrow> error option \<times> 'g"
  GetFeedChange :: "string \<Rightarrow> string \<Rightarrow> 'g \<Rightarrow> (error + FeedChange) \<times> 'g"
  RestoreDeletedFeed :: "string \<Rightarrow> string \<Rightarrow> JsonPatchOperation list \<Rightarrow> 'g \<Rightarrow> error option \<times> 'g"
  GetFeedPermissions :: "string \<Rightarrow> string \<Rightarrow> 'g \<Rightarrow> (error + FeedPermission list) \<times> 'g"
  SetFeedPermissions ::
    "string \<Rightarrow> string \<Rightarrow> FeedPermission list \<Rightarrow> 'g \<Rightarrow> (error + FeedPermission list) \<times> 'g"

record 'g GraphClient =
  GetStorageKey :: "string \<Rightarrow> 'g \<Rightarrow> (error + string) \<times> 'g"

record 'g IdentityClient =
  ReadIdentity :: "string \<Rightarrow> 'g \<Rightarrow> (error + Identity) \<times> 'g"

record 'g AuditClient =
  CreateStream :: "AuditStream \<Rightarrow> int \<Rightarrow> 'g \<Rightarrow> (error + AuditStream) \<times> 'g"
  QueryStreamById :: "int \<Rightarrow> 'g \<Rightarrow> (error + AuditStream) \<times> 'g"
  UpdateStream :: "AuditStream \<Rightarrow> 'g \<Rightarrow> (error + AuditStream) \<times> 'g"
  DeleteStream :: "int \<Rightarrow> 'g \<Rightarrow> error option \<times> 'g"
  UpdateStatus :: "int option \<Rightarrow> AuditStreamStatus \<Rightarrow> 'g \<Rightarrow> (error + AuditStream) \<times> 'g"

record 'g MemberEntitleManagementClient =
  AddGroupEntitlement :: "GroupEntitlement \<Rightarrow> 'g \<Rightarrow> (error + GroupOperationResult list) \<times> 'g"
  GetGroupEntitlement :: "string \<Rightarrow> 'g \<Rightarrow> (error + GroupEntitlement) \<times> 'g"

text \<open>\<open>client.AggregatedClient\<close>, the handle \<open>m\<close> that every resource function receives.\<close>

record 'g AggregatedClient =
  FeedClient :: "'g FeedClient"
  GraphClient :: "'g GraphClient"
  IdentityClient :: "'g IdentityClient"
  AuditClient :: "'g AuditClient"
  MemberEntitleManagementClient :: "'g MemberEntitleManagementClient"

text \<open>
  A Go function either returns its values or panics (on a nil pointer, an index out of range
  or a failed type assertion).
\<close>

datatype 'a outcome = Returns 'a | Panics

section \<open>The feed resource\<close>

text \<open>
  The \<open>schema.ResourceData\<close> of a feed: the Identifier \<open>d.Id()\<close> and the fields of the schema,
  each holding what \<open>d.Get\<close> returns.
\<close>

record feed_data =
  fd_Id :: string
  fd_name :: string
  fd_project_id :: string
  fd_permanent_delete :: bool
  fd_restored :: bool

definition resourceFeedRead ::
  "'g AggregatedClient \<Rightarrow> feed_data \<Rightarrow> 'g world \<Rightarrow> error option \<times> feed_data \<times> 'g world" where
  "resourceFeedRead clients d w =
     (let name = fd_name d; projectId = fd_project_id d in
      case invoke (GetFeedArgs name projectId) (GetFeed (FeedClient clients) name projectId) w of
        (Inl err, w') \<Rightarrow>
          if ResponseWasNotFound err then (None, d\<lparr>fd_Id := ''''\<rparr>, w')
          else (Some (errorString (''error reading feed during read: '' @ Error err)), d, w')
      | (Inr None, w') \<Rightarrow> (None, d, w')
      | (Inr (Some getFeed), w') \<Rightarrow>
          (let d1 = d\<lparr>fd_Id := Feed_Id getFeed, fd_name := Feed_Name getFeed\<rparr> in
           case Feed_Project getFeed of
             None \<Rightarrow> (None, d1, w')
           | Some project \<Rightarrow> (None, d1\<lparr>fd_project_id := ProjectReference_Id project\<rparr>, w')))"

definition isFeedRestorable :: "'g AggregatedClient \<Rightarrow> feed_data \<Rightarrow> 'g world \<Rightarrow> bool \<times> 'g world" where
  "isFeedRestorable clients d w =
     (let name = fd_name d; projectId = fd_project_id d in
      case invoke (GetFeedChangeArgs name projectId) (GetFeedChange (FeedClient clients) name projectId) w of
        (Inl err, w') \<Rightarrow> (False, w')
      | (Inr change, w') \<Rightarrow> (FeedChange_ChangeType change = Delete, w'))"

definition createFeed ::
  "'g AggregatedClient \<Rightarrow> feed_data \<Rightarrow> 'g world \<Rightarrow> error option \<times> feed_data \<times> 'g world" where
  "createFeed clients d w =
     (let name = fd_name d; projectId = fd_project_id d in
      case invoke (CreateFeedArgs name projectId) (CreateFeed (FeedClient clients) name projectId) w of
        (Inl err, w') \<Rightarrow> (Some err, d, w')
      | (Inr created, w') \<Rightarrow> (None, d\<lparr>fd_restored := False\<rparr>, w'))"

definition patchJsons :: "JsonPatchOperation list" where
  "patchJsons = [\<lparr>From = None, Path = ''/isDeleted'', Op = Replace, Value = JsonBool False\<rparr>]"

definition restoreFeed ::
  "'g AggregatedClient \<Rightarrow> feed_data \<Rightarrow> 'g world \<Rightarrow> error option \<times> feed_data \<times> 'g world" where
  "restoreFeed clients d w =
     (let name = fd_name d; projectId = fd_project_id d in
      case invoke (RestoreDeletedFeedArgs name projectId patchJsons)
                  (RestoreDeletedFeed (FeedClient clients) name projectId patchJsons) w of
        (Some err, w') \<Rightarrow> (Some err, d, w')
      | (None, w') \<Rightarrow> (None, d\<lparr>fd_restored := True\<rparr>, w'))"

definition resourceFeedCreate ::
  "'g AggregatedClient \<Rightarrow> feed_data \<Rightarrow> 'g world \<Rightarrow> error option \<times> feed_data \<times> 'g world" where
  "resourceFeedCreate clients d w =
     (let name = fd_name d in
      case isFeedRestorable clients d w of
        (True, w1) \<Rightarrow>
          (case restoreFeed clients d w1 of
             (Some err, d2, w2) \<Rightarrow>
               (Some (errorString (''restoring feed. Name: '' @ name @ '', Error: '' @ Error err)), d2, w2)
           | (None, d2, w2) \<Rightarrow> resourceFeedRead clients d2 w2)
      | (False, w1) \<Rightarrow>
          (case createFeed clients d w1 of
             (Some err, d2, w2) \<Rightarrow>
               (Some (errorString (''creating new feed. Name: '' @ name @ '', Error: '' @ Error err)), d2, w2)
           | (None, d2, w2) \<Rightarrow> resourceFeedRead clients d2 w2))"

definition resourceFeedUpdate ::
  "'g AggregatedClient \<Rightarrow> feed_data \<Rightarrow> 'g world \<Rightarrow> error option \<times> feed_data \<times> 'g world" where
  "resourceFeedUpdate clients d w =
     (let name = fd_name d; projectId = fd_project_id d in
      case invoke (UpdateFeedArgs name projectId) (UpdateFeed (FeedClient clients) name projectId) w of
        (Inl err, w') \<Rightarrow> (Some err, d, w')
      | (Inr updated, w') \<Rightarrow> resourceFeedRead clients d w')"

definition resourceFeedDelete ::
  "'g AggregatedClient \<Rightarrow> feed_data \<Rightarrow> 'g world \<Rightarrow> error option \<times> feed_data \<times> 'g world" where
  "resourceFeedDelete clients d w =
     (let name = fd_name d; projectId = fd_project_id d; permanentDelete = fd_permanent_delete d in
      case invoke (DeleteFeedArgs name projectId) (DeleteFeed (FeedClient clients) name projectId) w of
        (Some err, w1) \<Rightarrow> (Some err, d, w1)
      | (None, w1) \<Rightarrow>
          if permanentDelete then
            (case invoke (PermanentDeleteFeedArgs name projectId)
                         (PermanentDeleteFeed (FeedClient clients) name projectId) w1 of
               (Some err, w2) \<Rightarrow> (Some err, d, w2)
             | (None, w2) \<Rightarrow> (None, d\<lparr>fd_Id := ''''\<rparr>, w2))
          else (None, d\<lparr>fd_Id := ''''\<rparr>, w1))"

section \<open>The feed permission resource\<close>

record feed_permission_data =
  fp_Id :: string
  fp_feed_id :: string
  fp_identity_descriptor :: string
  fp_identity_id :: string
  fp_role :: FeedRole
  fp_project_id :: string
  fp_display_name :: string

definition getIdentity ::
  "'g AggregatedClient \<Rightarrow> feed_permission_data \<Rightarrow> 'g world \<Rightarrow> (error + Identity) \<times> 'g world" where
  "getIdentity clients d w =
     (let identityDescriptor = fp_identity_descriptor d in
      case invoke (GetStorageKeyArgs identityDescriptor)
                  (GetStorageKey (GraphClient clients) identityDescriptor) w of
        (Inl err, w1) \<Rightarrow> (Inl err, w1)
      | (Inr storageKey, w1) \<Rightarrow>
          (case invoke (ReadIdentityArgs storageKey)
                       (ReadIdentity (IdentityClient clients) storageKey) w1 of
             (Inl err, w2) \<Rightarrow> (Inl err, w2)
           | (Inr response, w2) \<Rightarrow> (Inr response, w2)))"

text \<open>
  \<open>getFeedPermission\<close> returns three values: the permission, the identity and the error, any of
  which may be \<open>nil\<close>. Its loop returns the first permission whose descriptor is the
  identity's, which is what \<open>find\<close> computes.
\<close>

definition getFeedPermission ::
  "'g AggregatedClient \<Rightarrow> feed_permission_data \<Rightarrow> 'g world \<Rightarrow>
     (FeedPermission option \<times> Identity option \<times> error option) \<times> 'g world" where
  "getFeedPermission clients d w =
     (let feedId = fp_feed_id d; identityDescriptor = fp_identity_descriptor d;
          projectId = fp_project_id d in
      case getIdentity clients d w of
        (Inl err, w1) \<Rightarrow> ((None, None, Some err), w1)
      | (Inr identityResponse, w1) \<Rightarrow>
          (case invoke (GetFeedPermissionsArgs feedId projectId)
                       (GetFeedPermissions (FeedClient clients) feedId projectId) w1 of
             (Inl err, w2) \<Rightarrow> ((None, Some identityResponse, Some err), w2)
           | (Inr permissions, w2) \<Rightarrow>
               (case find (\<lambda>permission. FeedPermission_IdentityDescriptor permission =
                                        Identity_Descriptor identityResponse) permissions of
                  Some permission \<Rightarrow> ((Some permission, Some identityResponse, None), w2)
                | None \<Rightarrow>
                    ((None, Some identityResponse,
                      Some (WrappedError (Some StatusNotFound)
                        (''error reading permission for Feed: '' @ feedId @ '' and Identity: '' @
                         identityDescriptor))), w2))))"

definition resourceFeedPermissionRead ::
  "'g AggregatedClient \<Rightarrow> feed_permission_data \<Rightarrow> 'g world \<Rightarrow>
     error option outcome \<times> feed_permission_data \<times> 'g world" where
  "resourceFeedPermissionRead clients d w =
     (let identityDescriptor = fp_identity_descriptor d in
      case getFeedPermission clients d w of
        ((permission, identityResponse, Some err), w1) \<Rightarrow>
          if ResponseWasNotFound err then (Returns None, d\<lparr>fp_Id := ''''\<rparr>, w1)
          else (Returns (Some (errorString
                  (''error reading feed permission during read: '' @ Error err))), d, w1)
      | ((None, identityResponse, None), w1) \<Rightarrow> (Returns None, d, w1)
      | ((Some permission, identityResponse, None), w1) \<Rightarrow>
          (let d1 = (case FeedPermission_DisplayName permission of
                       None \<Rightarrow> d
                     | Some displayName \<Rightarrow> d\<lparr>fp_display_name := displayName\<rparr>);
               d2 = d1\<lparr>fp_role := FeedPermission_Role permission,
                       fp_identity_descriptor := identityDescriptor\<rparr> in
           case identityResponse of
             None \<Rightarrow> (Panics, d2, w1)
           | Some identity \<Rightarrow> (Returns None, d2\<lparr>fp_identity_id := Identity_Id identity\<rparr>, w1)))"

text \<open>
  \<open>newUUID\<close> is the text of the identifier that \<open>uuid.NewUUID()\<close> draws. Where the source
  reads a field of \<open>identityResponse\<close> while that pointer is \<open>nil\<close>, it panics.
\<close>

definition resourceFeedPermissionCreate ::
  "'g AggregatedClient \<Rightarrow> string \<Rightarrow> feed_permission_data \<Rightarrow> 'g world \<Rightarrow>
     error option outcome \<times> feed_permission_data \<times> 'g world" where
  "resourceFeedPermissionCreate clients newUUID d w =
     (let feedId = fp_feed_id d; role = fp_role d; projectId = fp_project_id d;
          displayName = fp_display_name d; identityDescriptor = fp_identity_descriptor d in
      case getFeedPermission clients d w of
        ((permission, identityResponse, err), w1) \<Rightarrow>
          (case (case err of
                   None \<Rightarrow> None
                 | Some e \<Rightarrow> if ResponseWasNotFound e then None else Some e) of
             Some e \<Rightarrow>
               (Returns (Some (errorString
                  (''creating feed Permission for Feed : '' @ feedId @ '' and Identity : '' @
                   identityDescriptor @ '', Error: '' @ Error e))), d, w1)
           | None \<Rightarrow>
               if permission \<noteq> None then
                 (Returns (Some (errorString
                    (''feed Permission for Feed : '' @ feedId @ '' and Identity : '' @
                     identityDescriptor @ '' already exists''))), d, w1)
               else
                 (case identityResponse of
                    None \<Rightarrow> (Panics, d, w1)
                  | Some identity \<Rightarrow>
                      (let feedPermission =
                             [\<lparr>FeedPermission_DisplayName = Some displayName,
                               FeedPermission_IdentityDescriptor = Identity_Descriptor identity,
                               FeedPermission_IdentityId = Some (Identity_Id identity),
                               FeedPermission_Role = role\<rparr>] in
                       case invoke (SetFeedPermissionsArgs feedId projectId feedPermission)
                              (SetFeedPermissions (FeedClient clients) feedId projectId
                                 feedPermission) w1 of
                         (Inl e, w2) \<Rightarrow>
                           (Returns (Some (errorString
                              (''creating feed Permission for Feed : '' @ feedId @
                               '' and Identity : '' @ identityDescriptor @ '', Error: '' @
                               Error e))), d, w2)
                       | (Inr ok, w2) \<Rightarrow>
                           resourceFeedPermissionRead clients
                             (d\<lparr>fp_Id := ''fp-'' @ newUUID\<rparr>) w2))))"

definition resourceFeedPermissionUpdate ::
  "'g AggregatedClient \<Rightarrow> feed_permission_data \<Rightarrow> 'g world \<Rightarrow>
     error option outcome \<times> feed_permission_data \<times> 'g world" where
  "resourceFeedPermissionUpdate clients d w =
     (let feedId = fp_feed_id d; identityDescriptor = fp_identity_descriptor d; role = fp_role d;
          projectId = fp_project_id d; displayName = fp_display_name d in
      case getFeedPermission clients d w of
        ((permission, identityResponse, Some err), w1) \<Rightarrow>
          (Returns (Some (errorString
             (''error reading feed permission during update: '' @ Error err))), d, w1)
      | ((permission, None, None), w1) \<Rightarrow> (Panics, d, w1)
      | ((permission, Some identity, None), w1) \<Rightarrow>
          (let feedPermission =
                 [\<lparr>FeedPermission_DisplayName = Some displayName,
                   FeedPermission_IdentityDescriptor = Identity_Descriptor identity,
                   FeedPermission_IdentityId = Some (Identity_Id identity),
                   FeedPermission_Role = role\<rparr>] in
           case invoke (SetFeedPermissionsArgs feedId projectId feedPermission)
                  (SetFeedPermissions (FeedClient clients) feedId projectId feedPermission) w1 of
             (Inl e, w2) \<Rightarrow>
               (Returns (Some (errorString
                  (''updating feed Permission for Feed : '' @ feedId @ '' and Identity : '' @
                   identityDescriptor @ '', Error: '' @ Error e))), d, w2)
           | (Inr ok, w2) \<Rightarrow> resourceFeedPermissionRead clients d w2))"

definition resourceFeedPermissionDelete ::
  "'g AggregatedClient \<Rightarrow> feed_permission_data \<Rightarrow> 'g world \<Rightarrow>
     error option \<times> feed_permission_data \<times> 'g world" where
  "resourceFeedPermissionDelete clients d w =
     (let feedId = fp_feed_id d; identityDescriptor = fp_identity_descriptor d; role = NoneRole;
          projectId = fp_project_id d in
      case getIdentity clients d w of
        (Inl err, w1) \<Rightarrow>
          (Some (errorString
             (''deleting feed Permission for Feed : '' @ feedId @ '' and Identity : '' @
              identityDescriptor @ '', Error: '' @ Error err)), d, w1)
      | (Inr identityResponse, w1) \<Rightarrow>
          (let feedPermission =
                 [\<lparr>FeedPermission_DisplayName = None,
                   FeedPermission_IdentityDescriptor = Identity_Descriptor identityResponse,
                   FeedPermission_IdentityId = None,
                   FeedPermission_Role = role\<rparr>] in
           case invoke (SetFeedPermissionsArgs feedId projectId feedPermission)
                  (SetFeedPermissions (FeedClient clients) feedId projectId feedPermission) w1 of
             (Inl err, w2) \<Rightarrow>
               (Some (errorString
                  (''deleting feed Permission for Feed : '' @ feedId @ '' and Identity : '' @
                   identityDescriptor @ '', Error: '' @ Error err)), d, w2)
           | (Inr ok, w2) \<Rightarrow> (None, d\<lparr>fp_Id := ''''\<rparr>, w2)))"

section \<open>Decimal text of integers (strconv)\<close>

text \<open>
  \<open>strconv.Itoa\<close> and \<open>strconv.Atoi\<close> on the 64-bit \<open>int\<close>: \<open>Atoi\<close> accepts an optional sign
  followed by at least one decimal digit and fails on a value outside the range of \<open>int\<close>.
\<close>

fun decimal :: "nat \<Rightarrow> string" where
  "decimal n = (if n < 10 then [char_of (48 + n)] else decimal (n div 10) @ [char_of (48 + n mod 10)])"

declare decimal.simps [simp del]

definition Itoa :: "int \<Rightarrow> string" where
  "Itoa i = (if i < 0 then CHR ''-'' # decimal (nat (- i)) else decimal (nat i))"

definition isDigit :: "char \<Rightarrow> bool" where
  "isDigit c = (48 \<le> (of_char c :: nat) \<and> (of_char c :: nat) \<le> 57)"

definition digitsValue :: "string \<Rightarrow> nat" where
  "digitsValue ds = foldl (\<lambda>acc c. 10 * acc + (of_char c - 48)) 0 ds"

definition NumError :: "string \<Rightarrow> string \<Rightarrow> string \<Rightarrow> error" where
  "NumError func num msg =
     errorString (''strconv.'' @ func @ '': parsing '' @ [CHR 0x22] @ num @ [CHR 0x22] @ '': '' @ msg)"

definition Atoi :: "string \<Rightarrow> error + int" where
  "Atoi s =
     (let (neg, ds) = (case s of
                         [] \<Rightarrow> (False, s)
                       | c # rest \<Rightarrow> if c = CHR ''-'' then (True, rest)
                                    else if c = CHR ''+'' then (False, rest) else (False, s)) in
      if ds = [] \<or> \<not> list_all isDigit ds then Inl (NumError ''Atoi'' s ''invalid syntax'')
      else (let v = (if neg then - int (digitsValue ds) else int (digitsValue ds)) in
            if v < - (2 ^ 63) \<or> 2 ^ 63 \<le> v then Inl (NumError ''Atoi'' s ''value out of range'')
            else Inr v))"

section \<open>Waiting for a remote state (resource.StateChangeConf)\<close>

text \<open>A \<open>time.Duration\<close> counts nanoseconds.\<close>

type_synonym Duration = nat

definition Second :: Duration where
  "Second = 1000000000"

definition Minute :: Duration where
  "Minute = 60 * Second"

text \<open>
  What \<open>Refresh\<close> returns: the entity read (or \<open>nil\<close>), its state and the error.
\<close>

type_synonym 'g StateRefreshFunc =
  "'g world \<Rightarrow> (AuditStream option \<times> AuditStreamStatus \<times> error option) outcome \<times> 'g world"

record 'g StateChangeConf =
  ContinuousTargetOccurence :: nat
  Delay :: Duration
  MinTimeout :: Duration
  Pending :: "AuditStreamStatus list"
  Target :: "AuditStreamStatus list"
  Refresh :: "'g StateRefreshFunc"
  Timeout :: Duration

datatype wait_error = TimeoutError | UnexpectedStateError AuditStreamStatus | RefreshError error

fun wait_error_text :: "wait_error \<Rightarrow> string" where
  "wait_error_text TimeoutError = ''timeout while waiting for state''"
| "wait_error_text (UnexpectedStateError s) = ''unexpected state''"
| "wait_error_text (RefreshError err) = Error err"

text \<open>
  Modelled from the spec: \<open>StateChangeConf.WaitForState\<close> of the plugin SDK (package
  \<open>helper/resource\<close>, whose source is not among the files at hand). After the initial delay
  the poll re-reads the entity with \<open>Refresh\<close>. A read that fails ends the poll with that
  error. A state of the target set, seen the required number of consecutive times, ends it
  with success; a state of the pending set makes it wait the inter-poll interval and read
  again; any other state ends it with an error. Once the time elapsed since the start has
  reached the timeout, no further read is issued and the poll ends with a timeout error.
  \<open>elapsed\<close> is the time since the start; a read takes no time of its own, and a round of
  waiting takes at least one unit of the clock.
\<close>

function waitLoop ::
  "'g StateChangeConf \<Rightarrow> Duration \<Rightarrow> nat \<Rightarrow> 'g world \<Rightarrow>
     (wait_error + AuditStream option) outcome \<times> 'g world" where
  "waitLoop conf elapsed targetOccurence w =
     (if Timeout conf \<le> elapsed then (Returns (Inl TimeoutError), w)
      else
        (case Refresh conf w of
           (Panics, w') \<Rightarrow> (Panics, w')
         | (Returns (res, currentState, Some err), w') \<Rightarrow> (Returns (Inl (RefreshError err)), w')
         | (Returns (res, currentState, None), w') \<Rightarrow>
             if currentState \<in> set (Target conf) then
               (if ContinuousTargetOccurence conf \<le> Suc targetOccurence then (Returns (Inr res), w')
                else waitLoop conf (elapsed + max 1 (MinTimeout conf)) (Suc targetOccurence) w')
             else if currentState \<in> set (Pending conf) then
               waitLoop conf (elapsed + max 1 (MinTimeout conf)) 0 w'
             else (Returns (Inl (UnexpectedStateError currentState)), w')))"
  by pat_completeness auto
termination
  by (relation "measure (\<lambda>(conf, elapsed, targetOccurence, w). Timeout conf - elapsed)") auto

declare waitLoop.simps [simp del]

definition WaitForState ::
  "'g StateChangeConf \<Rightarrow> 'g world \<Rightarrow> (wait_error + AuditStream option) outcome \<times> 'g world" where
  "WaitForState conf w = waitLoop conf (Delay conf) 0 w"

section \<open>The audit stream resources\<close>

text \<open>
  The \<open>schema.ResourceData\<close> of an audit stream: the Identifier, the fields of the base schema
  and the create timeout that \<open>d.Timeout(schema.TimeoutCreate)\<close> returns. The schema of a
  concrete stream kind extends the record.
\<close>

record audit_data =
  ad_Id :: string
  ad_days_to_backfill :: int
  ad_enabled :: bool
  ad_name :: "string option"
  ad_timeout_create :: Duration

type_synonym 'z flatFunc =
  "'z audit_data_scheme \<Rightarrow> AuditStream \<Rightarrow> int \<Rightarrow> bool \<Rightarrow> 'z audit_data_scheme outcome"

type_synonym 'z expandFunc =
  "'z audit_data_scheme \<Rightarrow> AuditStream \<times> int \<times> bool"

definition doBaseExpansion :: "'z expandFunc" where
  "doBaseExpansion d =
     (let auditStreamId = (case Atoi (ad_Id d) of Inl err \<Rightarrow> None | Inr parsedId \<Rightarrow> Some parsedId);
          daysToBackfill = ad_days_to_backfill d;
          enabled = ad_enabled d;
          auditStream = \<lparr>AuditStream_Id = auditStreamId, AuditStream_Status = nil,
                         AuditStream_DisplayName = None\<rparr>
      in (auditStream, daysToBackfill, enabled))"

definition doBaseFlattening :: "'z flatFunc" where
  "doBaseFlattening d auditStream daysToBackfill enabled =
     (case AuditStream_Id auditStream of
        None \<Rightarrow> Panics
      | Some streamId \<Rightarrow>
          Returns (d\<lparr>ad_Id := Itoa streamId, ad_days_to_backfill := daysToBackfill,
                     ad_enabled := enabled, ad_name := AuditStream_DisplayName auditStream\<rparr>))"

definition readAuditStream ::
  "'g AggregatedClient \<Rightarrow> int \<Rightarrow> 'g world \<Rightarrow> (error + AuditStream) \<times> 'g world" where
  "readAuditStream clients streamId w =
     invoke (QueryStreamByIdArgs streamId) (QueryStreamById (AuditClient clients) streamId) w"

definition updateAuditStream ::
  "'g AggregatedClient \<Rightarrow> AuditStream \<Rightarrow> 'g world \<Rightarrow> (error + AuditStream) \<times> 'g world" where
  "updateAuditStream clients stream w =
     invoke (UpdateStreamArgs stream) (UpdateStream (AuditClient clients) stream) w"

definition deleteAuditStream ::
  "'g AggregatedClient \<Rightarrow> int \<Rightarrow> 'g world \<Rightarrow> error option \<times> 'g world" where
  "deleteAuditStream clients streamId w =
     invoke (DeleteStreamArgs streamId) (DeleteStream (AuditClient clients) streamId) w"

definition readStreamStatus :: "'g AggregatedClient \<Rightarrow> int \<Rightarrow> 'g StateRefreshFunc" where
  "readStreamStatus clients streamId w =
     (case readAuditStream clients streamId w of
        (Inl err, w') \<Rightarrow> (Returns (None, Unknown, Some err), w')
      | (Inr auditStream, w') \<Rightarrow>
          (case deref (AuditStream_Status auditStream) of
             None \<Rightarrow> (Panics, w')
           | Some status \<Rightarrow> (Returns (Some auditStream, status, None), w')))"

definition createAuditStream ::
  "'g AggregatedClient \<Rightarrow> AuditStream \<Rightarrow> int \<Rightarrow> Duration \<Rightarrow> 'g world \<Rightarrow>
     (error + AuditStream) outcome \<times> 'g world" where
  "createAuditStream clients stream daysToBackfill timeoutSeconds w =
     (case invoke (CreateStreamArgs stream daysToBackfill)
                  (CreateStream (AuditClient clients) stream daysToBackfill) w of
        (Inl err, w1) \<Rightarrow> (Returns (Inl err), w1)
      | (Inr createdAuditStream, w1) \<Rightarrow>
          (case AuditStream_Id createdAuditStream of
             None \<Rightarrow> (Panics, w1)
           | Some createdId \<Rightarrow>
               (let stateConf =
                      \<lparr>ContinuousTargetOccurence = 1,
                       Delay = 5 * Second,
                       MinTimeout = 10 * Second,
                       Pending = [Backfilling],
                       Target = [Enabled, DisabledByUser, DisabledBySystem],
                       Refresh = readStreamStatus clients createdId,
                       Timeout = timeoutSeconds\<rparr> in
                case WaitForState stateConf w1 of
                  (Panics, w2) \<Rightarrow> (Panics, w2)
                | (Returns (Inl err), w2) \<Rightarrow>
                    (Returns (Inl (errorString
                       ('' waiting for auditstream ready. '' @ wait_error_text err @ '' ''))), w2)
                | (Returns (Inr res), w2) \<Rightarrow> (Returns (Inr createdAuditStream), w2))))"

definition setStreamStatusState ::
  "'g AggregatedClient \<Rightarrow> AuditStream \<Rightarrow> bool \<Rightarrow> 'g world \<Rightarrow> (error + AuditStream) \<times> 'g world" where
  "setStreamStatusState clients stream enabled w =
     (let streamStatus = (if \<not> enabled then DisabledByUser else Enabled) in
      if AuditStream_Status stream \<noteq> AuditStreamStatusValues streamStatus then
        invoke (UpdateStatusArgs (AuditStream_Id stream) streamStatus)
               (UpdateStatus (AuditClient clients) (AuditStream_Id stream) streamStatus) w
      else (Inr stream, w))"

definition genAuditStreamReadFunc ::
  "'z flatFunc \<Rightarrow> 'g AggregatedClient \<Rightarrow> 'z audit_data_scheme \<Rightarrow> 'g world \<Rightarrow>
     error option outcome \<times> 'z audit_data_scheme \<times> 'g world" where
  "genAuditStreamReadFunc flatFunc clients d w =
     (case Atoi (ad_Id d) of
        Inl err \<Rightarrow>
          (Returns (Some (errorString
             (''Error parsing the audit stream ID from the Terraform resource data: '' @
              Error err))), d, w)
      | Inr streamId \<Rightarrow>
          (let daysToBackfill = ad_days_to_backfill d; enabled = ad_enabled d in
           case readAuditStream clients streamId w of
             (Inl err, w') \<Rightarrow>
               if ResponseWasNotFound err then (Returns None, d\<lparr>ad_Id := ''''\<rparr>, w')
               else (Returns (Some (errorString
                       (''Error looking up audit stream with ID '' @ Itoa streamId @
                        ''. Error: '' @ Error err))), d, w')
           | (Inr auditStream, w') \<Rightarrow>
               if AuditStream_Id auditStream = None then (Returns None, d\<lparr>ad_Id := ''''\<rparr>, w')
               else (case flatFunc d auditStream daysToBackfill enabled of
                       Panics \<Rightarrow> (Panics, d, w')
                     | Returns d' \<Rightarrow> (Returns None, d', w'))))"

definition genAuditStreamCreateFunc ::
  "'z flatFunc \<Rightarrow> 'z expandFunc \<Rightarrow> 'g AggregatedClient \<Rightarrow> 'z audit_data_scheme \<Rightarrow> 'g world \<Rightarrow>
     error option outcome \<times> 'z audit_data_scheme \<times> 'g world" where
  "genAuditStreamCreateFunc flatFunc expandFunc clients d w =
     (case expandFunc d of
        (auditStream, daysToBackfill, enabled) \<Rightarrow>
          (case createAuditStream clients auditStream daysToBackfill (ad_timeout_create d) w of
             (Panics, w1) \<Rightarrow> (Panics, d, w1)
           | (Returns (Inl err), w1) \<Rightarrow>
               (Returns (Some (errorString
                  (''Error creating audit stream in Azure DevOps: '' @ Error err))), d, w1)
           | (Returns (Inr createdAuditStream), w1) \<Rightarrow>
               (case setStreamStatusState clients createdAuditStream enabled w1 of
                  (Inl err, w2) \<Rightarrow>
                    (Returns (Some (errorString
                       (''Error updating audit stream in Azure DevOps: '' @ Error err))), d, w2)
                | (Inr statefulStream, w2) \<Rightarrow>
                    (case AuditStream_Id statefulStream of
                       None \<Rightarrow> (Panics, d, w2)
                     | Some statefulId \<Rightarrow>
                         genAuditStreamReadFunc flatFunc clients
                           (d\<lparr>ad_Id := Itoa statefulId\<rparr>) w2))))"

definition genAuditStreamUpdateFunc ::
  "'z flatFunc \<Rightarrow> 'z expandFunc \<Rightarrow> 'g AggregatedClient \<Rightarrow> 'z audit_data_scheme \<Rightarrow> 'g world \<Rightarrow>
     error option outcome \<times> 'z audit_data_scheme \<times> 'g world" where
  "genAuditStreamUpdateFunc flatFunc expandFunc clients d w =
     (case expandFunc d of
        (auditStream, daysToBackfill, enabled) \<Rightarrow>
          (case updateAuditStream clients auditStream w of
             (Inl err, w1) \<Rightarrow>
               (Returns (Some (errorString
                  (''Error updating audit stream in Azure DevOps: '' @ Error err))), d, w1)
           | (Inr updatedAuditStream, w1) \<Rightarrow>
               (case setStreamStatusState clients updatedAuditStream enabled w1 of
                  (Inl err, w2) \<Rightarrow>
                    (Returns (Some (errorString
                       (''Error updating audit stream in Azure DevOps: '' @ Error err))), d, w2)
                | (Inr statefulStream, w2) \<Rightarrow>
                    (case flatFunc d statefulStream daysToBackfill enabled of
                       Panics \<Rightarrow> (Panics, d, w2)
                     | Returns d' \<Rightarrow> genAuditStreamReadFunc flatFunc clients d' w2))))"

definition genAuditStreamDeleteFunc ::
  "'g AggregatedClient \<Rightarrow> 'z audit_data_scheme \<Rightarrow> 'g world \<Rightarrow>
     error option \<times> 'z audit_data_scheme \<times> 'g world" where
  "genAuditStreamDeleteFunc clients d w =
     (case Atoi (ad_Id d) of
        Inl err \<Rightarrow> (Some err, d, w)
      | Inr streamId \<Rightarrow>
          (case deleteAuditStream clients streamId w of
             (Some err, w') \<Rightarrow>
               (Some (errorString
                  (''Error deleting audit stream in Azure DevOps: '' @ Error err)), d, w')
           | (None, w') \<Rightarrow> (None, d, w')))"

section \<open>The group entitlement resource\<close>

record group_data =
  ge_Id :: string
  ge_display_name :: string
  ge_principal_name :: string
  ge_origin_id :: string
  ge_origin :: string
  ge_account_license_type :: string
  ge_licensing_source :: string
  ge_descriptor :: string

text \<open>
  The helpers of package \<open>internal/utils/converter\<close> and \<open>uuid.Parse\<close>, whose sources are not
  among the files at hand, are parameters of the functions that call them.
\<close>

record helpers =
  converter_AccountLicenseType :: "string \<Rightarrow> error + string"
  converter_AccountLicensingSource :: "string \<Rightarrow> error + string"
  uuid_Parse :: "string \<Rightarrow> error + string"

text \<open>
  \<open>strings.Split\<close> for a separator of one character: the pieces between the occurrences of
  the separator, in order. \<open>backslash\<close> is the one-character Go string \<open>"\\"\<close>.
\<close>

fun Split :: "string \<Rightarrow> char \<Rightarrow> string list" where
  "Split [] sep = [[]]"
| "Split (c # cs) sep =
     (if c = sep then [] # Split cs sep
      else (case Split cs sep of
              [] \<Rightarrow> [[c]]
            | piece # pieces \<Rightarrow> (c # piece) # pieces))"

definition backslash :: char where
  "backslash = CHR 0x5C"

definition Contains :: "string \<Rightarrow> char \<Rightarrow> bool" where
  "Contains s sep = (sep \<in> set s)"

definition expandGroupEntitlement ::
  "helpers \<Rightarrow> group_data \<Rightarrow> (error + GroupEntitlement) outcome" where
  "expandGroupEntitlement h d =
     (let origin = ge_origin d; originID = ge_origin_id d; principalName = ge_principal_name d in
      case (if length principalName > 0 \<and> Contains principalName backslash then
              (case Split principalName backslash of
                 first # second # pieces \<Rightarrow> Returns second
               | _ \<Rightarrow> Panics)
            else Returns (ge_display_name d)) of
        Panics \<Rightarrow> Panics
      | Returns displayName \<Rightarrow>
          if length originID > 0 \<and> length principalName > 0 then
            Returns (Inl (errorString
              (''Both origin_id and principal_name set. You can not use both: origin_id: '' @
               originID @ '' principal_name '' @ principalName)))
          else if length originID = 0 \<and> length principalName = 0 \<and> length displayName = 0 then
            Returns (Inl (errorString
              ''Neither origin_id and principal_name set. Use origin_id or principal_name''))
          else if length originID > 0 \<and> length origin = 0 then
            Returns (Inl (errorString ''Origin_id requires an origin to be set''))
          else
            (case converter_AccountLicenseType h (ge_account_license_type d) of
               Inl err \<Rightarrow> Returns (Inl err)
             | Inr accountLicenseType \<Rightarrow>
                 (case converter_AccountLicensingSource h (ge_licensing_source d) of
                    Inl err \<Rightarrow> Returns (Inl err)
                  | Inr licensingSource \<Rightarrow>
                      Returns (Inr
                        \<lparr>GroupEntitlement_Id = None,
                         GroupEntitlement_LicenseRule =
                           \<lparr>AccessLevel_AccountLicenseType = accountLicenseType,
                            AccessLevel_LicensingSource = licensingSource\<rparr>,
                         GroupEntitlement_Group =
                           \<lparr>GraphGroup_Descriptor = None,
                            GraphGroup_Origin = origin,
                            GraphGroup_OriginId = Some originID,
                            GraphGroup_DisplayName = displayName,
                            GraphGroup_PrincipalName = principalName,
                            GraphGroup_SubjectKind = ''group''\<rparr>\<rparr>))))"

text \<open>
  The message of the failed operations: one line \<open>(key) value\<close> per error, joined by a line
  feed. The aggregation of no line at all yields \<open>nil\<close>, whose assertion to \<open>string\<close>
  panics.
\<close>

definition getGroupEntitlementAPIErrorMessage :: "GroupOperationResult list \<Rightarrow> string outcome" where
  "getGroupEntitlementAPIErrorMessage operationResults =
     (if length operationResults > 0 then
        (let failed = filter (\<lambda>ueo. \<not> GroupOperationResult_IsSuccess ueo) operationResults;
             errors = concat (map (\<lambda>ueo. case GroupOperationResult_Errors ueo of
                                             None \<Rightarrow> [(''0000'', ''Unknown API error'')]
                                           | Some es \<Rightarrow> es) failed);
             lines = map (\<lambda>(key, val). ''('' @ key @ '') '' @ val) errors in
         case lines of
           [] \<Rightarrow> Panics
         | line # rest \<Rightarrow> Returns (foldl (\<lambda>agg elem. agg @ [CHR 0x0A] @ elem) line rest))
      else Returns ''Unknown API error'')"

definition addGroupEntitlement ::
  "'g AggregatedClient \<Rightarrow> GroupEntitlement \<Rightarrow> 'g world \<Rightarrow>
     (error + GroupEntitlement option) outcome \<times> 'g world" where
  "addGroupEntitlement clients groupEntitlement w =
     (case invoke (AddGroupEntitlementArgs groupEntitlement)
                  (AddGroupEntitlement (MemberEntitleManagementClient clients) groupEntitlement) w of
        (Inl err, w') \<Rightarrow> (Returns (Inl err), w')
      | (Inr [], w') \<Rightarrow> (Panics, w')
      | (Inr (result0 # results), w') \<Rightarrow>
          if \<not> GroupOperationResult_IsSuccess result0 then
            (let opResults = (if GroupOperationResult_Errors result0 \<noteq> None then [result0] else []) in
             case getGroupEntitlementAPIErrorMessage opResults of
               Panics \<Rightarrow> (Panics, w')
             | Returns msg \<Rightarrow>
                 (Returns (Inl (errorString (''Adding group entitlement: '' @ msg))), w'))
          else (Returns (Inr (GroupOperationResult_Result result0)), w'))"

definition flattenGroupEntitlement ::
  "group_data \<Rightarrow> GroupEntitlement option \<Rightarrow> group_data outcome" where
  "flattenGroupEntitlement d groupEntitlement =
     (case groupEntitlement of
        None \<Rightarrow> Panics
      | Some entitlement \<Rightarrow>
          (case GroupEntitlement_Id entitlement of
             None \<Rightarrow> Panics
           | Some entitlementId \<Rightarrow>
               (case GraphGroup_Descriptor (GroupEntitlement_Group entitlement) of
                  None \<Rightarrow> Panics
                | Some descriptor \<Rightarrow>
                    (let grp = GroupEntitlement_Group entitlement;
                         rule = GroupEntitlement_LicenseRule entitlement;
                         d1 = d\<lparr>ge_Id := entitlementId, ge_descriptor := descriptor,
                                ge_origin := GraphGroup_Origin grp\<rparr>;
                         d2 = (case GraphGroup_OriginId grp of
                                 None \<Rightarrow> d1
                               | Some originId \<Rightarrow> d1\<lparr>ge_origin_id := originId\<rparr>) in
                     Returns (d2\<lparr>ge_display_name := GraphGroup_DisplayName grp,
                                 ge_principal_name := GraphGroup_PrincipalName grp,
                                 ge_account_license_type := AccessLevel_AccountLicenseType rule,
                                 ge_licensing_source := AccessLevel_LicensingSource rule\<rparr>)))))"

definition readGroupEntitlement ::
  "'g AggregatedClient \<Rightarrow> string \<Rightarrow> 'g world \<Rightarrow> (error + GroupEntitlement) \<times> 'g world" where
  "readGroupEntitlement clients groupId w =
     invoke (GetGroupEntitlementArgs groupId)
            (GetGroupEntitlement (MemberEntitleManagementClient clients) groupId) w"

definition resourceGroupEntitlementRead ::
  "helpers \<Rightarrow> 'g AggregatedClient \<Rightarrow> group_data \<Rightarrow> 'g world \<Rightarrow>
     error option outcome \<times> group_data \<times> 'g world" where
  "resourceGroupEntitlementRead h clients d w =
     (let groupEntitlementID = ge_Id d in
      case uuid_Parse h groupEntitlementID of
        Inl err \<Rightarrow>
          (Returns (Some (errorString
             (''Error parsing GroupEntitlementID: '' @ groupEntitlementID @ ''. '' @ Error err))),
           d, w)
      | Inr groupId \<Rightarrow>
          (case readGroupEntitlement clients groupId w of
             (Inl err, w') \<Rightarrow>
               if ResponseWasNotFound err then (Returns None, d\<lparr>ge_Id := ''''\<rparr>, w')
               else (Returns (Some (errorString
                       (''Error reading group entitlement: '' @ Error err))), d, w')
           | (Inr groupEntitlement, w') \<Rightarrow>
               (case flattenGroupEntitlement d (Some groupEntitlement) of
                  Panics \<Rightarrow> (Panics, d, w')
                | Returns d' \<Rightarrow> (Returns None, d', w'))))"

definition resourceGroupEntitlementCreate ::
  "helpers \<Rightarrow> 'g AggregatedClient \<Rightarrow> group_data \<Rightarrow> 'g world \<Rightarrow>
     error option outcome \<times> group_data \<times> 'g world" where
  "resourceGroupEntitlementCreate h clients d w =
     (case expandGroupEntitlement h d of
        Panics \<Rightarrow> (Panics, d, w)
      | Returns (Inl err) \<Rightarrow>
          (Returns (Some (errorString (''Creating group entitlement: '' @ Error err))), d, w)
      | Returns (Inr groupEntitlement) \<Rightarrow>
          (case addGroupEntitlement clients groupEntitlement w of
             (Panics, w1) \<Rightarrow> (Panics, d, w1)
           | (Returns (Inl err), w1) \<Rightarrow>
               (Returns (Some (errorString (''Creating group entitlement: '' @ Error err))), d, w1)
           | (Returns (Inr addedGroupEntitlement), w1) \<Rightarrow>
               (case flattenGroupEntitlement d addedGroupEntitlement of
                  Panics \<Rightarrow> (Panics, d, w1)
                | Returns d1 \<Rightarrow> resourceGroupEntitlementRead h clients d1 w1)))"

section \<open>Describing a run\<close>



fun isCreateStreamCall :: "call \<Rightarrow> bool" where
  "isCreateStreamCall (CreateStreamArgs s n) = True"
| "isCreateStreamCall c = False"

fun isSetPermissionsCall :: "call \<Rightarrow> bool" where
  "isSetPermissionsCall (SetFeedPermissionsArgs f p ps) = True"
| "isSetPermissionsCall c = False"

text \<open>
  The status that a read of the stream \<open>streamId\<close> returns in the remote state \<open>g\<close>, if the
  read succeeds and the stream carries a status, and the remote state after \<open>n\<close> such reads.
\<close>

definition statusRead :: "'g AggregatedClient \<Rightarrow> int \<Rightarrow> 'g \<Rightarrow> AuditStreamStatus option" where
  "statusRead clients streamId g =
     (case fst (QueryStreamById (AuditClient clients) streamId g) of
        Inl err \<Rightarrow> None
      | Inr auditStream \<Rightarrow> deref (AuditStream_Status auditStream))"

fun afterReads :: "'g AggregatedClient \<Rightarrow> int \<Rightarrow> nat \<Rightarrow> 'g \<Rightarrow> 'g" where
  "afterReads clients streamId 0 g = g"
| "afterReads clients streamId (Suc n) g =
     afterReads clients streamId n (snd (QueryStreamById (AuditClient clients) streamId g))"

text \<open>The next \<open>n\<close> status reads return \<open>Backfilling\<close>.\<close>

fun pendingFor :: "'g AggregatedClient \<Rightarrow> int \<Rightarrow> nat \<Rightarrow> 'g \<Rightarrow> bool" where
  "pendingFor clients streamId 0 g = True"
| "pendingFor clients streamId (Suc n) g =
     (statusRead clients streamId g = Some Backfilling \<and>
      pendingFor clients streamId n (snd (QueryStreamById (AuditClient clients) streamId g)))"

text \<open>The next \<open>n\<close> status reads return \<open>Backfilling\<close> and the one after them a target status.\<close>

definition pendingThenTarget :: "'g AggregatedClient \<Rightarrow> int \<Rightarrow> nat \<Rightarrow> 'g \<Rightarrow> bool" where
  "pendingThenTarget clients streamId n g =
     (pendingFor clients streamId n g \<and>
      (case statusRead clients streamId (afterReads clients streamId n g) of
         None \<Rightarrow> False
       | Some status \<Rightarrow> status \<in> set [Enabled, DisabledByUser, DisabledBySystem]))"

text \<open>
  The number of status reads that fit into the timeout \<open>T\<close> of a create: the reads at
  5 s, 15 s, 25 s, ... that start before \<open>T\<close> has elapsed.
\<close>

definition readsWithin :: "Duration \<Rightarrow> nat" where
  "readsWithin T = (T - 5 * Second + (10 * Second - 1)) div (10 * Second)"

fun isGetPermissionsCall :: "call \<Rightarrow> bool" where
  "isGetPermissionsCall (GetFeedPermissionsArgs f p) = True"
| "isGetPermissionsCall c = False"

text \<open>
  Every request of the log that sets the permissions of a feed comes after a request that
  reads them; \<open>seen\<close> tells whether such a read precedes the log.
\<close>

fun writesAfterRead :: "bool \<Rightarrow> call list \<Rightarrow> bool" where
  "writesAfterRead seen [] = True"
| "writesAfterRead seen (c # cs) =
     ((if isSetPermissionsCall c then seen else True) \<and>
      writesAfterRead (seen \<or> isGetPermissionsCall c) cs)"

section \<open>Scripted gateways\<close>

text \<open>
  Concrete gateways over a remote state that counts the requests served. \<open>offline\<close> fails
  every request; the others answer the requests of one scenario.
\<close>

definition unavailable :: error where
  "unavailable = WrappedError (Some 503) ''service unavailable''"

definition offlineFeedClient :: "'g FeedClient" where
  "offlineFeedClient =
     \<lparr>GetFeed = (\<lambda>n p g. (Inl unavailable, g)),
      CreateFeed = (\<lambda>n p g. (Inl unavailable, g)),
      UpdateFeed = (\<lambda>n p g. (Inl unavailable, g)),
      DeleteFeed = (\<lambda>n p g. (Some unavailable, g)),
      PermanentDeleteFeed = (\<lambda>n p g. (Some unavailable, g)),
      GetFeedChange = (\<lambda>n p g. (Inl unavailable, g)),
      RestoreDeletedFeed = (\<lambda>n p ops g. (Some unavailable, g)),
      GetFeedPermissions = (\<lambda>n p g. (Inl unavailable, g)),
      SetFeedPermissions = (\<lambda>n p ps g. (Inl unavailable, g))\<rparr>"

definition offline :: "'g AggregatedClient" where
  "offline =
     \<lparr>FeedClient = offlineFeedClient,
      GraphClient = \<lparr>GetStorageKey = (\<lambda>d g. (Inl unavailable, g))\<rparr>,
      IdentityClient = \<lparr>ReadIdentity = (\<lambda>k g. (Inl unavailable, g))\<rparr>,
      AuditClient =
        \<lparr>CreateStream = (\<lambda>s n g. (Inl unavailable, g)),
         QueryStreamById = (\<lambda>i g. (Inl unavailable, g)),
         UpdateStream = (\<lambda>s g. (Inl unavailable, g)),
         DeleteStream = (\<lambda>i g. (Some unavailable, g)),
         UpdateStatus = (\<lambda>i s g. (Inl unavailable, g))\<rparr>,
      MemberEntitleManagementClient =
        \<lparr>AddGroupEntitlement = (\<lambda>e g. (Inl unavailable, g)),
         GetGroupEntitlement = (\<lambda>i g. (Inl unavailable, g))\<rparr>\<rparr>"

definition start :: "nat world" where
  "start = \<lparr>remote = 0, calls = []\<rparr>"

definition feedA :: feed_data where
  "feedA = \<lparr>fd_Id = ''7f1c'', fd_name = ''feedA'', fd_project_id = ''proj'',
            fd_permanent_delete = True, fd_restored = False\<rparr>"

definition purgeRefused :: "nat AggregatedClient" where
  "purgeRefused = offline\<lparr>FeedClient := offlineFeedClient
     \<lparr>DeleteFeed := (\<lambda>n p g. (None, g + 1)),
      PermanentDeleteFeed := (\<lambda>n p g. (Some (WrappedError (Some 500) ''purge refused''), g + 1))\<rparr>\<rparr>"

definition feedAFound :: Feed where
  "feedAFound = \<lparr>Feed_Id = ''7f1c'', Feed_Name = ''feedA'', Feed_Project = None\<rparr>"



definition queryFails :: "nat AggregatedClient" where
  "queryFails = offline\<lparr>FeedClient := offlineFeedClient
     \<lparr>CreateFeed := (\<lambda>n p g. (Inr feedAFound, g + 1)),
      GetFeed := (\<lambda>n p g. (Inr (Some feedAFound), g + 1))\<rparr>\<rparr>"

definition createdStream :: AuditStream where
  "createdStream = \<lparr>AuditStream_Id = Some 7, AuditStream_Status = decoded 0 Backfilling,
                     AuditStream_DisplayName = Some ''audit''\<rparr>"

text \<open>
  The stream is created with the id 7; the first \<open>n\<close> status reads find it backfilling and
  every later one finds it enabled. Each response is decoded into a fresh cell.
\<close>

definition backfillingFor :: "nat \<Rightarrow> nat AggregatedClient" where
  "backfillingFor n = offline\<lparr>AuditClient :=
     \<lparr>CreateStream = (\<lambda>s days g. (Inr createdStream, g + 1)),
      QueryStreamById = (\<lambda>i g.
        (Inr (createdStream\<lparr>AuditStream_Status :=
                decoded g (if g \<le> n then Backfilling else Enabled)\<rparr>), g + 1)),
      UpdateStream = (\<lambda>s g. (Inl unavailable, g)),
      DeleteStream = (\<lambda>i g. (Some unavailable, g)),
      UpdateStatus = (\<lambda>i status g.
        (Inr (createdStream\<lparr>AuditStream_Status := decoded g status\<rparr>), g + 1))\<rparr>\<rparr>"

definition neverReady :: "nat AggregatedClient" where
  "neverReady = offline\<lparr>AuditClient :=
     \<lparr>CreateStream = (\<lambda>s days g. (Inr createdStream, g + 1)),
      QueryStreamById = (\<lambda>i g.
        (Inr (createdStream\<lparr>AuditStream_Status := decoded g Backfilling\<rparr>), g + 1)),
      UpdateStream = (\<lambda>s g. (Inl unavailable, g)),
      DeleteStream = (\<lambda>i g. (Some unavailable, g)),
      UpdateStatus = (\<lambda>i status g. (Inl unavailable, g))\<rparr>\<rparr>"

definition newStream :: AuditStream where
  "newStream = \<lparr>AuditStream_Id = None, AuditStream_Status = nil, AuditStream_DisplayName = None\<rparr>"

definition auditD :: audit_data where
  "auditD = \<lparr>ad_Id = '''', ad_days_to_backfill = 0, ad_enabled = True, ad_name = None,
             ad_timeout_create = 20 * Second\<rparr>"

definition enabledStream :: AuditStream where
  "enabledStream = \<lparr>AuditStream_Id = Some 7, AuditStream_Status = decoded 3 Enabled,
                     AuditStream_DisplayName = Some ''audit''\<rparr>"


definition gone :: "nat AggregatedClient" where
  "gone = offline\<lparr>
     FeedClient := offlineFeedClient
       \<lparr>GetFeed := (\<lambda>n p g. (Inl (WrappedError (Some 404) ''feed not found''), g + 1))\<rparr>,
     AuditClient :=
       \<lparr>CreateStream = (\<lambda>s days g. (Inl unavailable, g)),
        QueryStreamById = (\<lambda>i g. (Inl (WrappedError (Some 404) ''stream not found''), g + 1)),
        UpdateStream = (\<lambda>s g. (Inl unavailable, g)),
        DeleteStream = (\<lambda>i g. (Some unavailable, g)),
        UpdateStatus = (\<lambda>i status g. (Inl unavailable, g))\<rparr>\<rparr>"

definition auditStored :: audit_data where
  "auditStored = \<lparr>ad_Id = ''7'', ad_days_to_backfill = 0, ad_enabled = True,
                  ad_name = Some ''audit'', ad_timeout_create = 10 * Minute\<rparr>"

definition alice :: Identity where
  "alice = \<lparr>Identity_Descriptor = ''aad.alice'', Identity_Id = ''a11ce''\<rparr>"

definition aliceReader :: FeedPermission where
  "aliceReader = \<lparr>FeedPermission_DisplayName = Some ''Alice'',
                   FeedPermission_IdentityDescriptor = ''aad.alice'',
                   FeedPermission_IdentityId = Some ''a11ce'',
                   FeedPermission_Role = Reader\<rparr>"

definition aliceNone :: FeedPermission where
  "aliceNone = \<lparr>FeedPermission_DisplayName = None,
                 FeedPermission_IdentityDescriptor = ''aad.alice'',
                 FeedPermission_IdentityId = None,
                 FeedPermission_Role = NoneRole\<rparr>"

definition grantA :: feed_permission_data where
  "grantA = \<lparr>fp_Id = '''', fp_feed_id = ''feed-1'', fp_identity_descriptor = ''vssgp.alice'',
             fp_identity_id = '''', fp_role = Contributor, fp_project_id = ''proj'',
             fp_display_name = ''Alice''\<rparr>"

text \<open>
  The identity resolves, and the feed holds the grants \<open>grants\<close>. Setting the permissions
  succeeds while fewer than \<open>limit\<close> requests have been served and fails from then on.
\<close>

definition permissionGateway :: "FeedPermission list \<Rightarrow> nat \<Rightarrow> nat AggregatedClient" where
  "permissionGateway grants limit = offline\<lparr>
     FeedClient := offlineFeedClient
       \<lparr>GetFeedPermissions := (\<lambda>f p g. (Inr grants, g + 1)),
        SetFeedPermissions := (\<lambda>f p ps g.
          (if g < limit then Inr ps else Inl (WrappedError (Some 500) ''set refused''), g + 1))\<rparr>,
     GraphClient := \<lparr>GetStorageKey = (\<lambda>d g. (Inr ''a11ce'', g + 1))\<rparr>,
     IdentityClient := \<lparr>ReadIdentity = (\<lambda>k g. (Inr alice, g + 1))\<rparr>\<rparr>"

definition grantStored :: feed_permission_data where
  "grantStored = grantA\<lparr>fp_Id := ''fp-0001''\<rparr>"

definition lenient :: helpers where
  "lenient = \<lparr>converter_AccountLicenseType = (\<lambda>s. Inr s),
              converter_AccountLicensingSource = (\<lambda>s. Inr s),
              uuid_Parse = (\<lambda>s. Inr s)\<rparr>"

definition groupBoth :: group_data where
  "groupBoth = \<lparr>ge_Id = '''', ge_display_name = '''',
                ge_principal_name = ''contoso'' @ [backslash] @ ''devs'',
                ge_origin_id = ''0a1b'', ge_origin = ''aad'',
                ge_account_license_type = ''express'', ge_licensing_source = ''account'',
                ge_descriptor = ''''\<rparr>"

section \<open>Properties\<close>

subsection \<open>Requests and the log\<close>

lemma invoke_eq:
  "invoke c f w = (fst (f (remote w)), \<lparr>remote = snd (f (remote w)), calls = calls w @ [c]\<rparr>)"
  by (simp add: invoke_def split: prod.splits)

subsection \<open>Feed delete\<close>

text \<open>
  Claim C9. A feed delete first issues the soft-delete. The purge request is issued only when
  the soft-delete succeeded and \<open>permanent_delete\<close> is set, and then right after it; with the
  flag unset no purge request is issued. When the purge fails after a successful soft-delete,
  its error is returned and the Identifier is left as it was. The delete returns no error
  exactly when every request it issued succeeded, and only then is the Identifier cleared.
\<close>

theorem resourceFeedDelete_purge_after_soft_delete:
  assumes run: "resourceFeedDelete clients d w = (err, d', w')"
    and soft: "DeleteFeed (FeedClient clients) (fd_name d) (fd_project_id d) (remote w) = (soft, g1)"
    and purge: "PermanentDeleteFeed (FeedClient clients) (fd_name d) (fd_project_id d) g1 = (purge, g2)"
  shows "issued w w' =
           DeleteFeedArgs (fd_name d) (fd_project_id d) #
           (if soft = None \<and> fd_permanent_delete d
            then [PermanentDeleteFeedArgs (fd_name d) (fd_project_id d)] else [])
       \<and> (soft = None \<and> fd_permanent_delete d \<and> purge \<noteq> None \<longrightarrow> err = purge \<and> fd_Id d' = fd_Id d)
       \<and> (err = None \<longleftrightarrow> soft = None \<and> (fd_permanent_delete d \<longrightarrow> purge = None))
       \<and> (err = None \<longrightarrow> d' = d\<lparr>fd_Id := ''''\<rparr>)
       \<and> (err \<noteq> None \<longrightarrow> d' = d)"
  using run soft purge
  by (auto simp: resourceFeedDelete_def invoke_eq issued_def Let_def split: option.splits if_splits)

theorem resourceFeedDelete_purge_after_soft_delete_witness:
  "resourceFeedDelete purgeRefused feedA start =
     (Some (WrappedError (Some 500) ''purge refused''), feedA,
      \<lparr>remote = 2, calls = [DeleteFeedArgs ''feedA'' ''proj'', PermanentDeleteFeedArgs ''feedA'' ''proj'']\<rparr>)
   \<and> issued start \<lparr>remote = 2, calls = [DeleteFeedArgs ''feedA'' ''proj'',
         PermanentDeleteFeedArgs ''feedA'' ''proj'']\<rparr> =
       [DeleteFeedArgs ''feedA'' ''proj'', PermanentDeleteFeedArgs ''feedA'' ''proj'']
   \<and> fd_Id feedA = ''7f1c''"
proof -
  let ?e = "WrappedError (Some 500) ''purge refused''"
  let ?w = "\<lparr>remote = 2, calls = [DeleteFeedArgs ''feedA'' ''proj'',
               PermanentDeleteFeedArgs ''feedA'' ''proj'']\<rparr> :: nat world"
  have run: "resourceFeedDelete purgeRefused feedA start = (Some ?e, feedA, ?w)"
    by (simp add: resourceFeedDelete_def purgeRefused_def offline_def offlineFeedClient_def
        feedA_def start_def invoke_def Let_def)
  have soft: "DeleteFeed (FeedClient purgeRefused) (fd_name feedA) (fd_project_id feedA)
                (remote start) = (None, 1)"
    by (simp add: purgeRefused_def offline_def offlineFeedClient_def start_def)
  have purge: "PermanentDeleteFeed (FeedClient purgeRefused) (fd_name feedA) (fd_project_id feedA) 1
                 = (Some ?e, 2)"
    by (simp add: purgeRefused_def offline_def offlineFeedClient_def)
  from resourceFeedDelete_purge_after_soft_delete [OF run soft purge] run
  show ?thesis by (simp add: feedA_def)
qed

subsection \<open>Feed create: restore or create\<close>

lemmas feed_defs = resourceFeedCreate_def isFeedRestorable_def restoreFeed_def createFeed_def
  resourceFeedRead_def




text \<open>
  Claim C10. Whatever error the change-record query returns, \<open>isFeedRestorable\<close> is false and
  the create goes on with a plain create request; the error it returns, if any, is that of the
  create request or of the read that follows, never that of the query.
\<close>

theorem isFeedRestorable_swallows_query_error:
  assumes run: "resourceFeedCreate clients d w = (err, d', w')"
    and query: "GetFeedChange (FeedClient clients) (fd_name d) (fd_project_id d) (remote w) = (Inl e, g1)"
    and create: "CreateFeed (FeedClient clients) (fd_name d) (fd_project_id d) g1 = (created, g2)"
    and read: "GetFeed (FeedClient clients) (fd_name d) (fd_project_id d) g2 = (found, g3)"
  shows "fst (isFeedRestorable clients d w) = False
       \<and> issued w w' =
           GetFeedChangeArgs (fd_name d) (fd_project_id d) #
           CreateFeedArgs (fd_name d) (fd_project_id d) #
           (if isl created then [] else [GetFeedArgs (fd_name d) (fd_project_id d)])
       \<and> err =
           (case created of
              Inl ce \<Rightarrow> Some (errorString (''creating new feed. Name: '' @ fd_name d @ '', Error: '' @ Error ce))
            | Inr f \<Rightarrow>
                (case found of
                   Inl re \<Rightarrow> if ResponseWasNotFound re then None
                             else Some (errorString (''error reading feed during read: '' @ Error re))
                 | Inr f \<Rightarrow> None))"
  using run query create read
  by (auto simp: feed_defs invoke_eq issued_def Let_def
           split: option.splits if_splits sum.splits prod.splits)

theorem isFeedRestorable_swallows_query_error_witness:
  "fst (isFeedRestorable queryFails feedA start) = False
   \<and> resourceFeedCreate queryFails feedA start =
       (None, feedA,
        \<lparr>remote = 2,
         calls = [GetFeedChangeArgs ''feedA'' ''proj'', CreateFeedArgs ''feedA'' ''proj'',
                  GetFeedArgs ''feedA'' ''proj'']\<rparr>)"
proof -
  let ?calls = "[GetFeedChangeArgs ''feedA'' ''proj'', CreateFeedArgs ''feedA'' ''proj'',
                 GetFeedArgs ''feedA'' ''proj'']"
  have run: "resourceFeedCreate queryFails feedA start =
               (None, feedA, \<lparr>remote = 2, calls = ?calls\<rparr>)"
    by (simp add: feed_defs invoke_eq Let_def queryFails_def offline_def
        offlineFeedClient_def feedA_def feedAFound_def start_def)
  have query: "GetFeedChange (FeedClient queryFails) (fd_name feedA) (fd_project_id feedA)
                 (remote start) = (Inl unavailable, 0)"
    by (simp add: queryFails_def offline_def offlineFeedClient_def start_def)
  have create: "CreateFeed (FeedClient queryFails) (fd_name feedA) (fd_project_id feedA) 0
                  = (Inr feedAFound, 1)"
    by (simp add: queryFails_def offline_def offlineFeedClient_def)
  have read: "GetFeed (FeedClient queryFails) (fd_name feedA) (fd_project_id feedA) 1
                = (Inr (Some feedAFound), 2)"
    by (simp add: queryFails_def offline_def offlineFeedClient_def)
  from isFeedRestorable_swallows_query_error [OF run query create read] run
  show ?thesis by simp
qed


subsection \<open>Read of an entity that is gone\<close>

text \<open>
  Claim C6. When the read request of a feed read or of an audit stream read fails with a
  not-found response, the read returns no error and the Identifier is cleared, the other
  fields being left alone. When it fails otherwise, the read returns an error carrying the
  message of the failure and leaves the resource data, the Identifier included, unchanged.
  No further request is issued in either case.
\<close>

theorem read_not_found_clears_identifier:
  "(GetFeed (FeedClient clients) (fd_name d) (fd_project_id d) (remote w) = (Inl e, g) \<longrightarrow>
      resourceFeedRead clients d w =
        (if ResponseWasNotFound e then None
         else Some (errorString (''error reading feed during read: '' @ Error e)),
         if ResponseWasNotFound e then d\<lparr>fd_Id := ''''\<rparr> else d,
         \<lparr>remote = g, calls = calls w @ [GetFeedArgs (fd_name d) (fd_project_id d)]\<rparr>))
   \<and> (Atoi (ad_Id a) = Inr streamId \<and>
      QueryStreamById (AuditClient aclients) streamId (remote v) = (Inl ae, ag) \<longrightarrow>
      genAuditStreamReadFunc flatFunc aclients a v =
        (Returns (if ResponseWasNotFound ae then None
                  else Some (errorString (''Error looking up audit stream with ID '' @
                               Itoa streamId @ ''. Error: '' @ Error ae))),
         if ResponseWasNotFound ae then a\<lparr>ad_Id := ''''\<rparr> else a,
         \<lparr>remote = ag, calls = calls v @ [QueryStreamByIdArgs streamId]\<rparr>))"
  by (simp add: resourceFeedRead_def genAuditStreamReadFunc_def readAuditStream_def invoke_eq)

theorem read_not_found_clears_identifier_witness:
  "resourceFeedRead gone feedA start =
     (None, feedA\<lparr>fd_Id := ''''\<rparr>, \<lparr>remote = 1, calls = [GetFeedArgs ''feedA'' ''proj'']\<rparr>)
   \<and> genAuditStreamReadFunc doBaseFlattening gone auditStored start =
     (Returns None, auditStored\<lparr>ad_Id := ''''\<rparr>, \<lparr>remote = 1, calls = [QueryStreamByIdArgs 7]\<rparr>)
   \<and> resourceFeedRead offline feedA start =
     (Some (errorString ''error reading feed during read: service unavailable''), feedA,
      \<lparr>remote = 0, calls = [GetFeedArgs ''feedA'' ''proj'']\<rparr>)
   \<and> genAuditStreamReadFunc doBaseFlattening offline auditStored start =
     (Returns (Some (errorString
        ''Error looking up audit stream with ID 7. Error: service unavailable'')),
      auditStored, \<lparr>remote = 0, calls = [QueryStreamByIdArgs 7]\<rparr>)"
proof -
  have names: "fd_name feedA = ''feedA''" "fd_project_id feedA = ''proj''"
    by (simp_all add: feedA_def)
  have log: "calls start = []"
    by (simp add: start_def)
  have itoa: "Itoa 7 = ''7''"
    by code_simp
  have notFound: "ResponseWasNotFound (WrappedError (Some 404) msg)"
      "\<not> ResponseWasNotFound unavailable" "Error unavailable = ''service unavailable''" for msg
    by (simp_all add: StatusNotFound_def unavailable_def)
  have f1: "GetFeed (FeedClient gone) (fd_name feedA) (fd_project_id feedA) (remote start)
              = (Inl (WrappedError (Some 404) ''feed not found''), 1)"
    by (simp add: gone_def offline_def offlineFeedClient_def start_def)
  have q1: "Atoi (ad_Id auditStored) = Inr 7 \<and>
            QueryStreamById (AuditClient gone) 7 (remote start)
              = (Inl (WrappedError (Some 404) ''stream not found''), 1)"
    by (simp add: auditStored_def Atoi_def isDigit_def digitsValue_def gone_def offline_def
        start_def)
  have f2: "GetFeed (FeedClient offline) (fd_name feedA) (fd_project_id feedA)
              (remote start) = (Inl unavailable, 0)"
    by (simp add: offline_def offlineFeedClient_def start_def)
  have q2: "Atoi (ad_Id auditStored) = Inr 7 \<and>
            QueryStreamById (AuditClient offline) 7 (remote start) = (Inl unavailable, 0)"
    by (simp add: auditStored_def Atoi_def isDigit_def digitsValue_def offline_def start_def)
  from read_not_found_clears_identifier
         [where clients = gone and d = feedA and w = start and g = 1
            and e = "WrappedError (Some 404) ''feed not found''"
            and aclients = gone and a = auditStored and v = start and ag = 1 and streamId = 7
            and ae = "WrappedError (Some 404) ''stream not found''"
            and flatFunc = doBaseFlattening]
       f1 q1
  have found: "resourceFeedRead gone feedA start =
      (None, feedA\<lparr>fd_Id := ''''\<rparr>, \<lparr>remote = 1, calls = [GetFeedArgs ''feedA'' ''proj'']\<rparr>)
    \<and> genAuditStreamReadFunc doBaseFlattening gone auditStored start =
      (Returns None, auditStored\<lparr>ad_Id := ''''\<rparr>, \<lparr>remote = 1, calls = [QueryStreamByIdArgs 7]\<rparr>)"
    by (simp add: names log StatusNotFound_def)
  from read_not_found_clears_identifier
         [where clients = "offline :: nat AggregatedClient" and d = feedA and w = start and g = 0
            and e = unavailable
            and aclients = "offline :: nat AggregatedClient" and a = auditStored and v = start
            and ag = 0 and streamId = 7 and ae = unavailable and flatFunc = doBaseFlattening]
       f2 q2
  have failed: "resourceFeedRead offline feedA start =
      (Some (errorString ''error reading feed during read: service unavailable''), feedA,
       \<lparr>remote = 0, calls = [GetFeedArgs ''feedA'' ''proj'']\<rparr>)
    \<and> genAuditStreamReadFunc doBaseFlattening offline auditStored start =
      (Returns (Some (errorString
         ''Error looking up audit stream with ID 7. Error: service unavailable'')),
       auditStored, \<lparr>remote = 0, calls = [QueryStreamByIdArgs 7]\<rparr>)"
    by (simp add: names log notFound itoa)
  from found failed show ?thesis by simp
qed

subsection \<open>The stabilization poll of an audit stream\<close>

text \<open>
  A status read that succeeds on a stream carrying a status appends one request to the log and
  hands that status to the poll.
\<close>

lemma readStreamStatus_status:
  assumes "statusRead clients sid (remote w) = Some st"
  shows "\<exists>s. readStreamStatus clients sid w =
           (Returns (Some s, st, None),
            \<lparr>remote = snd (QueryStreamById (AuditClient clients) sid (remote w)),
             calls = calls w @ [QueryStreamByIdArgs sid]\<rparr>)"
  using assms
  by (auto simp: readStreamStatus_def readAuditStream_def invoke_eq statusRead_def
           split: sum.splits option.splits)

lemma Second_pos: "max 1 (10 * Second) = 10 * Second" "max (Suc 0) (10 * Second) = 10 * Second"
  by (simp_all add: Second_def)

lemma waitLoop_pending_then_target:
  assumes conf: "Refresh conf = readStreamStatus clients sid" "Pending conf = [Backfilling]"
      "Target conf = [Enabled, DisabledByUser, DisabledBySystem]"
      "ContinuousTargetOccurence conf = 1" "MinTimeout conf = 10 * Second"
  shows "pendingThenTarget clients sid n (remote w) \<Longrightarrow>
         elapsed + n * (10 * Second) < Timeout conf \<Longrightarrow>
         \<exists>res. waitLoop conf elapsed 0 w =
           (Returns (Inr res),
            \<lparr>remote = afterReads clients sid (Suc n) (remote w),
             calls = calls w @ replicate (Suc n) (QueryStreamByIdArgs sid)\<rparr>)"
proof (induction n arbitrary: elapsed w)
  case 0
  then obtain st where st: "statusRead clients sid (remote w) = Some st"
    and target: "st \<in> set [Enabled, DisabledByUser, DisabledBySystem]"
    by (auto simp: pendingThenTarget_def split: option.splits)
  from readStreamStatus_status [OF st] obtain s where
    "readStreamStatus clients sid w =
       (Returns (Some s, st, None),
        \<lparr>remote = snd (QueryStreamById (AuditClient clients) sid (remote w)),
         calls = calls w @ [QueryStreamByIdArgs sid]\<rparr>)" ..
  with 0 target conf show ?case
    by (subst waitLoop.simps) auto
next
  case (Suc n)
  let ?g' = "snd (QueryStreamById (AuditClient clients) sid (remote w))"
  let ?w' = "\<lparr>remote = ?g', calls = calls w @ [QueryStreamByIdArgs sid]\<rparr>"
  from Suc.prems(1) have st: "statusRead clients sid (remote w) = Some Backfilling"
    and rest: "pendingThenTarget clients sid n (remote ?w')"
    by (auto simp: pendingThenTarget_def)
  from readStreamStatus_status [OF st] obtain s where
    read: "readStreamStatus clients sid w = (Returns (Some s, Backfilling, None), ?w')" ..
  from Suc.prems(2) have time: "(elapsed + 10 * Second) + n * (10 * Second) < Timeout conf"
    and now: "\<not> Timeout conf \<le> elapsed"
    by auto
  from Suc.IH [OF rest time] obtain res where
    "waitLoop conf (elapsed + 10 * Second) 0 ?w' =
       (Returns (Inr res),
        \<lparr>remote = afterReads clients sid (Suc n) ?g',
         calls = calls ?w' @ replicate (Suc n) (QueryStreamByIdArgs sid)\<rparr>)"
    by auto
  with read now conf show ?case
    by (subst waitLoop.simps) (auto simp: Second_pos)
qed

lemma ceil_div_step:
  fixes T e I :: nat
  assumes pos: "0 < I" and lt: "e < T"
  shows "(T - e + (I - 1)) div I = Suc ((T - (e + I) + (I - 1)) div I)"
proof (cases "e + I \<le> T")
  case True
  then have eq: "T - e + (I - 1) = (T - (e + I) + (I - 1)) + I"
    by arith
  have "(x + I) div I = Suc (x div I)" for x :: nat
    using pos by (simp add: div_add_self2)
  with eq show ?thesis by metis
next
  case False
  with lt have z: "T - (e + I) = 0"
    and lo: "I \<le> T - e + (I - 1)"
    and hi: "T - e + (I - 1) < 2 * I"
    by arith+
  from pos have small: "(I - 1) div I = 0" by simp
  from lo hi pos have "(T - e + (I - 1)) div I = 1"
    by (intro div_nat_eqI) auto
  with z small show ?thesis by (metis One_nat_def add_0)
qed

lemma readsWithin_step:
  assumes "elapsed < T"
  shows "(T - elapsed + (10 * Second - 1)) div (10 * Second) =
         Suc ((T - (elapsed + 10 * Second) + (10 * Second - 1)) div (10 * Second))"
proof -
  have "0 < 10 * Second" by (simp add: Second_def)
  from ceil_div_step [OF this assms] show ?thesis .
qed

lemma waitLoop_always_pending:
  assumes conf: "Refresh conf = readStreamStatus clients sid" "Pending conf = [Backfilling]"
      "Target conf = [Enabled, DisabledByUser, DisabledBySystem]"
      "MinTimeout conf = 10 * Second"
  shows "n = (Timeout conf - elapsed + (10 * Second - 1)) div (10 * Second) \<Longrightarrow>
         pendingFor clients sid n (remote w) \<Longrightarrow>
         waitLoop conf elapsed 0 w =
           (Returns (Inl TimeoutError),
            \<lparr>remote = afterReads clients sid n (remote w),
             calls = calls w @ replicate n (QueryStreamByIdArgs sid)\<rparr>)"
proof (induction n arbitrary: elapsed w)
  case 0
  have pos: "0 < 10 * Second" by (simp add: Second_def)
  have "Timeout conf \<le> elapsed"
  proof (rule ccontr)
    assume "\<not> Timeout conf \<le> elapsed"
    then have "elapsed < Timeout conf" by simp
    from readsWithin_step [OF this] 0(1) show False by (metis nat.distinct(1))
  qed
  then show ?case by (subst waitLoop.simps) simp
next
  case (Suc n)
  let ?g' = "snd (QueryStreamById (AuditClient clients) sid (remote w))"
  let ?w' = "\<lparr>remote = ?g', calls = calls w @ [QueryStreamByIdArgs sid]\<rparr>"
  have pos: "0 < 10 * Second" by (simp add: Second_def)
  have now: "elapsed < Timeout conf"
  proof (rule ccontr)
    assume "\<not> elapsed < Timeout conf"
    then have "Timeout conf - elapsed = 0" by simp
    with Suc.prems(1) pos show False by simp
  qed
  from readsWithin_step [OF now] Suc.prems(1)
  have n: "n = (Timeout conf - (elapsed + 10 * Second) + (10 * Second - 1)) div (10 * Second)"
    by (metis nat.inject)
  from Suc.prems(2) have st: "statusRead clients sid (remote w) = Some Backfilling"
    and rest: "pendingFor clients sid n (remote ?w')"
    by auto
  from readStreamStatus_status [OF st] obtain s where
    read: "readStreamStatus clients sid w = (Returns (Some s, Backfilling, None), ?w')" ..
  from Suc.IH [OF n rest] read now conf show ?case
    by (subst waitLoop.simps) (auto simp: Second_pos)
qed

lemma readStreamStatus_calls:
  "calls (snd (readStreamStatus clients sid w)) = calls w @ [QueryStreamByIdArgs sid]"
  by (simp add: readStreamStatus_def readAuditStream_def invoke_eq split: sum.splits option.splits)

lemma waitLoop_only_reads:
  assumes conf: "Refresh conf = readStreamStatus clients sid"
  shows "\<exists>k. calls (snd (waitLoop conf elapsed occ w)) =
           calls w @ replicate k (QueryStreamByIdArgs sid)"
proof (induction "Timeout conf - elapsed" arbitrary: elapsed occ w rule: less_induct)
  case less
  let ?q = "QueryStreamByIdArgs sid"
  show ?case
  proof (cases "Timeout conf \<le> elapsed")
    case True
    then have "calls (snd (waitLoop conf elapsed occ w)) = calls w @ replicate 0 ?q"
      by (subst waitLoop.simps) simp
    then show ?thesis by blast
  next
    case False
    obtain r w' where r: "readStreamStatus clients sid w = (r, w')"
      by fastforce
    with readStreamStatus_calls [of clients sid w] have w': "calls w' = calls w @ [?q]"
      by simp
    have one: "calls w' = calls w @ replicate 1 ?q"
      using w' by simp
    from False have "Timeout conf - (elapsed + max 1 (MinTimeout conf)) < Timeout conf - elapsed"
      by simp
    from less [OF this] have more:
      "\<exists>k. calls (snd (waitLoop conf (elapsed + max 1 (MinTimeout conf)) occ' w')) =
            calls w @ replicate (Suc k) ?q" for occ'
      using w' by (metis append.assoc append_Cons append_Nil replicate_Suc)
    show ?thesis
    proof (cases r)
      case Panics
      with False r conf one show ?thesis
        by (subst waitLoop.simps) (auto simp del: replicate.simps)
    next
      case (Returns t)
      obtain res st eo where t: "t = (res, st, eo)" by (cases t)
      show ?thesis
      proof (cases eo)
        case (Some e)
        with False r conf one Returns t show ?thesis
          by (subst waitLoop.simps) (auto simp del: replicate.simps)
      next
        case None
        consider (reached) "st \<in> set (Target conf)" "ContinuousTargetOccurence conf \<le> Suc occ"
          | (again) "st \<in> set (Target conf)" "\<not> ContinuousTargetOccurence conf \<le> Suc occ"
          | (pending) "st \<notin> set (Target conf)" "st \<in> set (Pending conf)"
          | (other) "st \<notin> set (Target conf)" "st \<notin> set (Pending conf)"
          by blast
        then show ?thesis
        proof cases
          case reached
          with False r conf one Returns t None show ?thesis
            by (subst waitLoop.simps) (auto simp del: replicate.simps)
        next
          case again
          with False r conf Returns t None more [of "Suc occ"] show ?thesis
            by (subst waitLoop.simps) (auto simp del: replicate.simps)
        next
          case pending
          with False r conf Returns t None more [of 0] show ?thesis
            by (subst waitLoop.simps) (auto simp del: replicate.simps)
        next
          case other
          with False r conf one Returns t None show ?thesis
            by (subst waitLoop.simps) (auto simp del: replicate.simps)
        qed
      qed
    qed
  qed
qed

lemma createAuditStream_stabilized:
  assumes created: "CreateStream (AuditClient clients) stream days (remote w) = (Inr cs, g1)"
    and sid: "AuditStream_Id cs = Some sid"
    and reads: "pendingThenTarget clients sid N g1"
    and fits: "5 * Second + N * (10 * Second) < T"
  shows "createAuditStream clients stream days T w =
           (Returns (Inr cs),
            \<lparr>remote = afterReads clients sid (Suc N) g1,
             calls = calls w @ CreateStreamArgs stream days #
                       replicate (Suc N) (QueryStreamByIdArgs sid)\<rparr>)"
proof -
  let ?conf = "\<lparr>ContinuousTargetOccurence = 1, Delay = 5 * Second, MinTimeout = 10 * Second,
                Pending = [Backfilling], Target = [Enabled, DisabledByUser, DisabledBySystem],
                Refresh = readStreamStatus clients sid, Timeout = T\<rparr>"
  let ?w1 = "\<lparr>remote = g1, calls = calls w @ [CreateStreamArgs stream days]\<rparr>"
  have "\<exists>res. waitLoop ?conf (5 * Second) 0 ?w1 =
          (Returns (Inr res),
           \<lparr>remote = afterReads clients sid (Suc N) (remote ?w1),
            calls = calls ?w1 @ replicate (Suc N) (QueryStreamByIdArgs sid)\<rparr>)"
    by (rule waitLoop_pending_then_target) (use reads fits in simp_all)
  then obtain res where
    "waitLoop ?conf (5 * Second) 0 ?w1 =
       (Returns (Inr res),
        \<lparr>remote = afterReads clients sid (Suc N) g1,
         calls = calls w @ CreateStreamArgs stream days #
                   replicate (Suc N) (QueryStreamByIdArgs sid)\<rparr>)"
    by auto
  with created sid show ?thesis
    by (simp add: createAuditStream_def invoke_eq WaitForState_def)
qed

lemma createAuditStream_timed_out:
  assumes created: "CreateStream (AuditClient clients) stream days (remote w) = (Inr cs, g1)"
    and sid: "AuditStream_Id cs = Some sid"
    and reads: "pendingFor clients sid (readsWithin T) g1"
  shows "createAuditStream clients stream days T w =
           (Returns (Inl (errorString
              '' waiting for auditstream ready. timeout while waiting for state '')),
            \<lparr>remote = afterReads clients sid (readsWithin T) g1,
             calls = calls w @ CreateStreamArgs stream days #
                       replicate (readsWithin T) (QueryStreamByIdArgs sid)\<rparr>)"
proof -
  let ?conf = "\<lparr>ContinuousTargetOccurence = 1, Delay = 5 * Second, MinTimeout = 10 * Second,
                Pending = [Backfilling], Target = [Enabled, DisabledByUser, DisabledBySystem],
                Refresh = readStreamStatus clients sid, Timeout = T\<rparr>"
  let ?w1 = "\<lparr>remote = g1, calls = calls w @ [CreateStreamArgs stream days]\<rparr>"
  have "waitLoop ?conf (5 * Second) 0 ?w1 =
          (Returns (Inl TimeoutError),
           \<lparr>remote = afterReads clients sid (readsWithin T) (remote ?w1),
            calls = calls ?w1 @ replicate (readsWithin T) (QueryStreamByIdArgs sid)\<rparr>)"
    by (rule waitLoop_always_pending) (use reads in \<open>simp_all add: readsWithin_def\<close>)
  with created sid show ?thesis
    by (simp add: createAuditStream_def invoke_eq WaitForState_def)
qed

lemmas audit_example_defs = backfillingFor_def neverReady_def offline_def offlineFeedClient_def
  createdStream_def newStream_def auditD_def enabledStream_def start_def unavailable_def

lemma readsWithin_20: "readsWithin (20 * Second) = 2"
  by (simp add: readsWithin_def Second_def)

text \<open>
  Claim C2, as amended. Let the create request succeed and return a stream with an id. If the
  next \<open>N\<close> status reads return \<open>Backfilling\<close> and the one after them a target status
  (\<open>Enabled\<close>, \<open>DisabledByUser\<close> or \<open>DisabledBySystem\<close>), and the \<open>N + 1\<close> reads fit into
  the timeout (the read number \<open>N + 1\<close> starts at 5 s + N * 10 s, before the timeout \<open>T\<close>),
  then the poll issues exactly \<open>N + 1\<close> status reads and the create returns the created
  stream. If the status reads return \<open>Backfilling\<close> for as many reads as fit into the timeout
  (as they do for a gateway that never leaves the pending status), the create returns the
  timeout error after exactly those reads and issues nothing further. In every run the log
  holds the one create request followed by status reads only: the read is what is retried,
  never the create.
\<close>

theorem createAuditStream_stabilization:
  assumes created: "CreateStream (AuditClient clients) stream days (remote w) = (Inr cs, g1)"
    and sid: "AuditStream_Id cs = Some sid"
  shows "(pendingThenTarget clients sid N g1 \<and> 5 * Second + N * (10 * Second) < T \<longrightarrow>
            createAuditStream clients stream days T w =
              (Returns (Inr cs),
               \<lparr>remote = afterReads clients sid (Suc N) g1,
                calls = calls w @ CreateStreamArgs stream days #
                          replicate (Suc N) (QueryStreamByIdArgs sid)\<rparr>))
       \<and> (pendingFor clients sid (readsWithin T) g1 \<longrightarrow>
            createAuditStream clients stream days T w =
              (Returns (Inl (errorString
                 '' waiting for auditstream ready. timeout while waiting for state '')),
               \<lparr>remote = afterReads clients sid (readsWithin T) g1,
                calls = calls w @ CreateStreamArgs stream days #
                          replicate (readsWithin T) (QueryStreamByIdArgs sid)\<rparr>))
       \<and> (\<exists>k. issued w (snd (createAuditStream clients stream days T w)) =
                 CreateStreamArgs stream days # replicate k (QueryStreamByIdArgs sid))"
proof (intro conjI impI)
  assume "pendingThenTarget clients sid N g1 \<and> 5 * Second + N * (10 * Second) < T"
  with created sid show "createAuditStream clients stream days T w =
      (Returns (Inr cs),
       \<lparr>remote = afterReads clients sid (Suc N) g1,
        calls = calls w @ CreateStreamArgs stream days #
                  replicate (Suc N) (QueryStreamByIdArgs sid)\<rparr>)"
    by (intro createAuditStream_stabilized) simp_all
next
  assume "pendingFor clients sid (readsWithin T) g1"
  with created sid show "createAuditStream clients stream days T w =
      (Returns (Inl (errorString
         '' waiting for auditstream ready. timeout while waiting for state '')),
       \<lparr>remote = afterReads clients sid (readsWithin T) g1,
        calls = calls w @ CreateStreamArgs stream days #
                  replicate (readsWithin T) (QueryStreamByIdArgs sid)\<rparr>)"
    by (rule createAuditStream_timed_out)
next
  let ?conf = "\<lparr>ContinuousTargetOccurence = 1, Delay = 5 * Second, MinTimeout = 10 * Second,
                Pending = [Backfilling], Target = [Enabled, DisabledByUser, DisabledBySystem],
                Refresh = readStreamStatus clients sid, Timeout = T\<rparr>"
  let ?w1 = "\<lparr>remote = g1, calls = calls w @ [CreateStreamArgs stream days]\<rparr>"
  have "\<exists>k. calls (snd (waitLoop ?conf (5 * Second) 0 ?w1)) =
          calls ?w1 @ replicate k (QueryStreamByIdArgs sid)"
    by (rule waitLoop_only_reads) simp
  then obtain k where k: "calls (snd (waitLoop ?conf (5 * Second) 0 ?w1)) =
          calls w @ CreateStreamArgs stream days # replicate k (QueryStreamByIdArgs sid)"
    by auto
  have "snd (createAuditStream clients stream days T w) = snd (waitLoop ?conf (5 * Second) 0 ?w1)"
    using created sid
    by (simp add: createAuditStream_def invoke_eq WaitForState_def
        split: prod.splits outcome.splits sum.splits)
  with k have "issued w (snd (createAuditStream clients stream days T w)) =
                 CreateStreamArgs stream days # replicate k (QueryStreamByIdArgs sid)"
    by (simp add: issued_def)
  then show "\<exists>k. issued w (snd (createAuditStream clients stream days T w)) =
              CreateStreamArgs stream days # replicate k (QueryStreamByIdArgs sid)"
    by blast
qed

theorem createAuditStream_stabilization_witness:
  "createAuditStream (backfillingFor 2) newStream 0 Minute start =
     (Returns (Inr createdStream),
      \<lparr>remote = 4,
       calls = [CreateStreamArgs newStream 0, QueryStreamByIdArgs 7, QueryStreamByIdArgs 7,
                QueryStreamByIdArgs 7]\<rparr>)
   \<and> createAuditStream neverReady newStream 0 (20 * Second) start =
     (Returns (Inl (errorString
        '' waiting for auditstream ready. timeout while waiting for state '')),
      \<lparr>remote = 3,
       calls = [CreateStreamArgs newStream 0, QueryStreamByIdArgs 7, QueryStreamByIdArgs 7]\<rparr>)"
proof -
  have id: "AuditStream_Id createdStream = Some 7"
    by (simp add: createdStream_def)
  have c1: "CreateStream (AuditClient (backfillingFor 2)) newStream 0 (remote start)
              = (Inr createdStream, 1)"
    by (simp add: backfillingFor_def offline_def start_def)
  have p1: "pendingThenTarget (backfillingFor 2) 7 2 1 \<and> 5 * Second + 2 * (10 * Second) < Minute"
    by (simp add: pendingThenTarget_def statusRead_def audit_example_defs numeral_2_eq_2
        Minute_def Second_def)
  have a1: "afterReads (backfillingFor 2) 7 (Suc 2) 1 = 4"
    by (simp add: audit_example_defs numeral_2_eq_2)
  have c2: "CreateStream (AuditClient neverReady) newStream 0 (remote start)
              = (Inr createdStream, 1)"
    by (simp add: neverReady_def offline_def start_def)
  have p2: "pendingFor neverReady 7 (readsWithin (20 * Second)) 1"
    by (simp add: readsWithin_20 statusRead_def audit_example_defs numeral_2_eq_2)
  have a2: "afterReads neverReady 7 (readsWithin (20 * Second)) 1 = 3"
    by (simp add: readsWithin_20 audit_example_defs numeral_2_eq_2)
  from createAuditStream_stabilization [OF c1 id, of 2 Minute]
       createAuditStream_stabilization [OF c2 id, of 0 "20 * Second"] p1 p2 a1 a2
  show ?thesis
    by (simp add: readsWithin_20 start_def numeral_2_eq_2 numeral_3_eq_3)
qed

text \<open>
  Claim C2 as stated puts no bound on \<open>N\<close>. With a create timeout of 20 s and a gateway that
  returns \<open>Backfilling\<close> twice and \<open>Enabled\<close> from then on, only the reads at 5 s and 15 s
  fit: the poll issues two reads, not three, and the create returns the timeout error.
\<close>

theorem createAuditStream_pending_past_timeout_counterexample:
  "CreateStream (AuditClient (backfillingFor 2)) newStream 0 (remote start) = (Inr createdStream, 1)
   \<and> pendingThenTarget (backfillingFor 2) 7 2 1
   \<and> createAuditStream (backfillingFor 2) newStream 0 (20 * Second) start =
     (Returns (Inl (errorString
        '' waiting for auditstream ready. timeout while waiting for state '')),
      \<lparr>remote = 3,
       calls = [CreateStreamArgs newStream 0, QueryStreamByIdArgs 7, QueryStreamByIdArgs 7]\<rparr>)"
  by (simp add: pendingThenTarget_def statusRead_def numeral_2_eq_2
      createAuditStream_def WaitForState_def audit_example_defs invoke_eq
      readStreamStatus_def readAuditStream_def waitLoop.simps Second_def)

subsection \<open>The Identifier after a timeout\<close>

text \<open>
  Claim C3, as amended. When the stabilization poll times out after a successful create
  request, the create of the resource returns the timeout error, issues no further request
  and leaves the resource data as they were: the id that the create request returned is not
  stored as the Identifier.
\<close>

theorem genAuditStreamCreateFunc_timeout_leaves_data:
  assumes expand: "expandFunc d = (stream, days, enabled)"
    and created: "CreateStream (AuditClient clients) stream days (remote w) = (Inr cs, g1)"
    and sid: "AuditStream_Id cs = Some sid"
    and reads: "pendingFor clients sid (readsWithin (ad_timeout_create d)) g1"
  shows "genAuditStreamCreateFunc flatFunc expandFunc clients d w =
           (Returns (Some (errorString
              (''Error creating audit stream in Azure DevOps: '' @
               '' waiting for auditstream ready. timeout while waiting for state ''))),
            d,
            \<lparr>remote = afterReads clients sid (readsWithin (ad_timeout_create d)) g1,
             calls = calls w @ CreateStreamArgs stream days #
                       replicate (readsWithin (ad_timeout_create d)) (QueryStreamByIdArgs sid)\<rparr>)"
  using expand createAuditStream_timed_out [OF created sid reads]
  by (simp add: genAuditStreamCreateFunc_def)

lemma doBaseExpansion_auditD: "doBaseExpansion auditD = (newStream, 0, True)"
  by (simp add: doBaseExpansion_def auditD_def newStream_def Atoi_def)

theorem genAuditStreamCreateFunc_timeout_leaves_data_witness:
  "genAuditStreamCreateFunc doBaseFlattening doBaseExpansion neverReady auditD start =
     (Returns (Some (errorString
        ''Error creating audit stream in Azure DevOps:  waiting for auditstream ready. timeout while waiting for state '')),
      auditD,
      \<lparr>remote = 3,
       calls = [CreateStreamArgs newStream 0, QueryStreamByIdArgs 7, QueryStreamByIdArgs 7]\<rparr>)"
proof -
  have id: "AuditStream_Id createdStream = Some 7"
    by (simp add: createdStream_def)
  have c: "CreateStream (AuditClient neverReady) newStream 0 (remote start) = (Inr createdStream, 1)"
    by (simp add: neverReady_def offline_def start_def)
  have T: "ad_timeout_create auditD = 20 * Second"
    by (simp add: auditD_def)
  have p: "pendingFor neverReady 7 (readsWithin (ad_timeout_create auditD)) 1"
    by (simp add: T readsWithin_20 statusRead_def audit_example_defs numeral_2_eq_2)
  have a: "afterReads neverReady 7 (readsWithin (20 * Second)) 1 = 3"
    by (simp add: readsWithin_20 audit_example_defs numeral_2_eq_2)
  from genAuditStreamCreateFunc_timeout_leaves_data
         [where expandFunc = doBaseExpansion and d = auditD and flatFunc = doBaseFlattening,
          OF doBaseExpansion_auditD c id p] a
  show ?thesis
    by (simp add: T readsWithin_20 start_def numeral_2_eq_2)
qed

text \<open>
  Claim C3 as stated has the Identifier of the created stream retained. The gateway creates
  the stream with the id 7 and never leaves \<open>Backfilling\<close>; after the timeout the Identifier
  is still empty, not the text of 7.
\<close>

theorem genAuditStreamCreateFunc_identifier_counterexample:
  "CreateStream (AuditClient neverReady) newStream 0 (remote start) = (Inr createdStream, 1)
   \<and> AuditStream_Id createdStream = Some 7
   \<and> Itoa 7 = ''7''
   \<and> ad_Id (fst (snd (genAuditStreamCreateFunc doBaseFlattening doBaseExpansion neverReady
                         auditD start))) = ''''"
proof -
  have "Itoa 7 = ''7''" by code_simp
  moreover have "ad_timeout_create auditD = 20 * Second" "ad_Id auditD = ''''"
    by (simp_all add: auditD_def)
  then have "ad_Id (fst (snd (genAuditStreamCreateFunc doBaseFlattening doBaseExpansion
                   neverReady auditD start))) = ''''"
    by (simp add: genAuditStreamCreateFunc_def doBaseExpansion_auditD
        createAuditStream_def WaitForState_def neverReady_def offline_def createdStream_def
        start_def invoke_eq readStreamStatus_def readAuditStream_def waitLoop.simps Second_def)
  ultimately show ?thesis
    by (simp add: neverReady_def offline_def start_def createdStream_def)
qed

subsection \<open>Status reconciliation\<close>

text \<open>
  \<open>setStreamStatusState\<close> compares the status pointer of the stream with the address of a
  field of \<open>audit.AuditStreamStatusValues\<close>. It skips the status update exactly when the two
  addresses are equal, whatever the statuses they point to.
\<close>

lemma setStreamStatusState_skips_iff:
  "calls (snd (setStreamStatusState clients stream enabled w)) = calls w \<longleftrightarrow>
   AuditStream_Status stream = AuditStreamStatusValues (if enabled then Enabled else DisabledByUser)"
  by (simp add: setStreamStatusState_def invoke_eq)

text \<open>
  Claim C8 says that no status update is issued when the current status agrees with the
  desired one. Here the stream is \<open>Enabled\<close>, in a cell decoded from a response, and
  \<open>enabled\<close> is true: the statuses agree, and the status update is issued all the same.
\<close>

theorem setStreamStatusState_updates_enabled_stream:
  "deref (AuditStream_Status enabledStream) = Some Enabled
   \<and> setStreamStatusState (backfillingFor 2) enabledStream True \<lparr>remote = 4, calls = []\<rparr> =
       (Inr (createdStream\<lparr>AuditStream_Status := decoded 4 Enabled\<rparr>),
        \<lparr>remote = 5, calls = [UpdateStatusArgs (Some 7) Enabled]\<rparr>)"
  by (simp add: setStreamStatusState_def invoke_eq audit_example_defs)

subsection \<open>Feed permissions\<close>

lemmas permission_defs = getFeedPermission_def getIdentity_def

lemma writesAfterRead_seen: "writesAfterRead True cs"
  by (induction cs) auto

lemma writesAfterRead_no_write:
  "filter isSetPermissionsCall cs = [] \<Longrightarrow> writesAfterRead seen cs"
  by (induction cs arbitrary: seen) (auto split: if_splits)

lemma getFeedPermission_issues:
  "\<exists>cs. calls (snd (getFeedPermission clients d w)) = calls w @ cs \<and>
        filter isSetPermissionsCall cs = [] \<and>
        (fst (snd (fst (getFeedPermission clients d w))) \<noteq> None \<longrightarrow>
           filter isGetPermissionsCall cs \<noteq> [])"
  by (auto simp: permission_defs invoke_eq Let_def split: prod.splits sum.splits option.splits)

lemma resourceFeedPermissionRead_extends:
  "\<exists>cs. calls (snd (snd (resourceFeedPermissionRead clients d w))) = calls w @ cs"
proof -
  obtain cs where "calls (snd (getFeedPermission clients d w)) = calls w @ cs"
    using getFeedPermission_issues by blast
  then show ?thesis
    by (auto simp: resourceFeedPermissionRead_def Let_def
        split: prod.splits option.splits if_splits)
qed

lemma writesAfterRead_append:
  "filter isSetPermissionsCall cs = [] \<Longrightarrow> filter isGetPermissionsCall cs \<noteq> [] \<Longrightarrow>
   writesAfterRead seen (cs @ ds)"
proof (induction cs arbitrary: seen)
  case Nil
  then show ?case by simp
next
  case (Cons c cs)
  show ?case
  proof (cases "isGetPermissionsCall c")
    case True
    with Cons.prems(1) show ?thesis
      by (auto simp: writesAfterRead_seen split: if_splits)
  next
    case False
    with Cons show ?thesis
      by (auto split: if_splits)
  qed
qed

text \<open>
  Claim C4. When the identity resolves and the permissions read of the feed returns a grant
  whose descriptor is that of the identity, the create of a feed permission returns the error
  saying that the permission already exists, leaves the resource data unchanged and issues
  the three read requests only: no request sets the permissions. In every run of the create,
  a request that sets the permissions is issued only after the permissions have been read.
\<close>

theorem resourceFeedPermissionCreate_conflict:
  "(GetStorageKey (GraphClient clients) (fp_identity_descriptor d) (remote w) = (Inr key, g1) \<and>
    ReadIdentity (IdentityClient clients) key g1 = (Inr identity, g2) \<and>
    GetFeedPermissions (FeedClient clients) (fp_feed_id d) (fp_project_id d) g2
      = (Inr permissions, g3) \<and>
    (\<exists>p \<in> set permissions. FeedPermission_IdentityDescriptor p = Identity_Descriptor identity) \<longrightarrow>
    resourceFeedPermissionCreate clients newUUID d w =
      (Returns (Some (errorString
         (''feed Permission for Feed : '' @ fp_feed_id d @ '' and Identity : '' @
          fp_identity_descriptor d @ '' already exists''))),
       d,
       \<lparr>remote = g3,
        calls = calls w @ [GetStorageKeyArgs (fp_identity_descriptor d), ReadIdentityArgs key,
                           GetFeedPermissionsArgs (fp_feed_id d) (fp_project_id d)]\<rparr>))
   \<and> writesAfterRead False
         (issued w (snd (snd (resourceFeedPermissionCreate clients newUUID d w))))"
proof (intro conjI impI)
  assume h: "GetStorageKey (GraphClient clients) (fp_identity_descriptor d) (remote w) = (Inr key, g1) \<and>
    ReadIdentity (IdentityClient clients) key g1 = (Inr identity, g2) \<and>
    GetFeedPermissions (FeedClient clients) (fp_feed_id d) (fp_project_id d) g2
      = (Inr permissions, g3) \<and>
    (\<exists>p \<in> set permissions. FeedPermission_IdentityDescriptor p = Identity_Descriptor identity)"
  then have "find (\<lambda>permission. FeedPermission_IdentityDescriptor permission =
                      Identity_Descriptor identity) permissions \<noteq> None"
    by (auto simp: find_None_iff)
  then obtain p where "find (\<lambda>permission. FeedPermission_IdentityDescriptor permission =
                      Identity_Descriptor identity) permissions = Some p"
    by blast
  with h show "resourceFeedPermissionCreate clients newUUID d w =
      (Returns (Some (errorString
         (''feed Permission for Feed : '' @ fp_feed_id d @ '' and Identity : '' @
          fp_identity_descriptor d @ '' already exists''))),
       d,
       \<lparr>remote = g3,
        calls = calls w @ [GetStorageKeyArgs (fp_identity_descriptor d), ReadIdentityArgs key,
                           GetFeedPermissionsArgs (fp_feed_id d) (fp_project_id d)]\<rparr>)"
    by (simp add: resourceFeedPermissionCreate_def permission_defs invoke_eq Let_def)
next
  obtain perm ident err w1 where g: "getFeedPermission clients d w = ((perm, ident, err), w1)"
    by (metis prod.exhaust)
  from getFeedPermission_issues [of clients d w] g obtain cs where
    cs: "calls w1 = calls w @ cs" "filter isSetPermissionsCall cs = []"
        "ident \<noteq> None \<longrightarrow> filter isGetPermissionsCall cs \<noteq> []"
    by auto
  let ?run = "resourceFeedPermissionCreate clients newUUID d w"
  let ?set = "\<lambda>identity. snd (invoke
       (SetFeedPermissionsArgs (fp_feed_id d) (fp_project_id d)
          [\<lparr>FeedPermission_DisplayName = Some (fp_display_name d),
            FeedPermission_IdentityDescriptor = Identity_Descriptor identity,
            FeedPermission_IdentityId = Some (Identity_Id identity),
            FeedPermission_Role = fp_role d\<rparr>])
       (SetFeedPermissions (FeedClient clients) (fp_feed_id d) (fp_project_id d)
          [\<lparr>FeedPermission_DisplayName = Some (fp_display_name d),
            FeedPermission_IdentityDescriptor = Identity_Descriptor identity,
            FeedPermission_IdentityId = Some (Identity_Id identity),
            FeedPermission_Role = fp_role d\<rparr>]) w1)"
  have "snd (snd ?run) = w1 \<or>
        (\<exists>identity. ident = Some identity \<and>
           (snd (snd ?run) = ?set identity \<or>
            snd (snd ?run) = snd (snd (resourceFeedPermissionRead clients
                                         (d\<lparr>fp_Id := ''fp-'' @ newUUID\<rparr>) (?set identity)))))"
    using g
    by (auto simp: resourceFeedPermissionCreate_def Let_def
        split: option.splits if_splits sum.splits prod.splits)
  then consider (stop) "snd (snd ?run) = w1"
    | (sets) identity where "ident = Some identity"
        "snd (snd ?run) = ?set identity \<or>
         snd (snd ?run) = snd (snd (resourceFeedPermissionRead clients
                                      (d\<lparr>fp_Id := ''fp-'' @ newUUID\<rparr>) (?set identity)))"
    by blast
  then show "writesAfterRead False (issued w (snd (snd ?run)))"
  proof cases
    case stop
    with cs show ?thesis
      by (simp add: issued_def writesAfterRead_no_write)
  next
    case sets
    let ?w2 = "?set identity"
    obtain c where w2: "calls ?w2 = calls w1 @ [c]"
      by (auto simp: invoke_eq)
    from resourceFeedPermissionRead_extends [of clients "d\<lparr>fp_Id := ''fp-'' @ newUUID\<rparr>" ?w2]
    obtain ds where ds: "calls (snd (snd (resourceFeedPermissionRead clients
                                  (d\<lparr>fp_Id := ''fp-'' @ newUUID\<rparr>) ?w2))) = calls ?w2 @ ds"
      by blast
    from sets(1) cs have "filter isGetPermissionsCall cs \<noteq> []" by simp
    with cs(2) have "writesAfterRead False (cs @ es)" for es
      by (rule writesAfterRead_append)
    from this [of "[c]"] this [of "c # ds"] sets(2) cs(1) w2 ds show ?thesis
      by (auto simp: issued_def)
  qed
qed

theorem resourceFeedPermissionCreate_conflict_witness:
  "resourceFeedPermissionCreate (permissionGateway [aliceReader] 9) ''0001'' grantA start =
     (Returns (Some (errorString
        ''feed Permission for Feed : feed-1 and Identity : vssgp.alice already exists'')),
      grantA,
      \<lparr>remote = 3,
       calls = [GetStorageKeyArgs ''vssgp.alice'', ReadIdentityArgs ''a11ce'',
                GetFeedPermissionsArgs ''feed-1'' ''proj'']\<rparr>)"
proof -
  have fields: "fp_feed_id grantA = ''feed-1''" "fp_project_id grantA = ''proj''"
      "fp_identity_descriptor grantA = ''vssgp.alice''"
    by (simp_all add: grantA_def)
  have log: "calls start = []"
    by (simp add: start_def)
  have h: "GetStorageKey (GraphClient (permissionGateway [aliceReader] 9))
             (fp_identity_descriptor grantA) (remote start) = (Inr ''a11ce'', 1) \<and>
           ReadIdentity (IdentityClient (permissionGateway [aliceReader] 9)) ''a11ce'' 1
             = (Inr alice, 2) \<and>
           GetFeedPermissions (FeedClient (permissionGateway [aliceReader] 9)) (fp_feed_id grantA)
             (fp_project_id grantA) 2 = (Inr [aliceReader], 3) \<and>
           (\<exists>p \<in> set [aliceReader].
              FeedPermission_IdentityDescriptor p = Identity_Descriptor alice)"
    by (simp add: permissionGateway_def offline_def offlineFeedClient_def start_def
        aliceReader_def alice_def)
  from resourceFeedPermissionCreate_conflict
         [where clients = "permissionGateway [aliceReader] 9" and d = grantA and w = start
            and key = "''a11ce''" and ?g1.0 = 1 and identity = alice and ?g2.0 = 2
            and permissions = "[aliceReader]" and ?g3.0 = 3 and newUUID = "''0001''"] h
  show ?thesis
    by (simp add: fields log)
qed

text \<open>
  Claim C5, as amended. A delete of a feed permission resolves the identity and then issues
  one request that sets the permissions, carrying the single grant of that identity with the
  role \<open>None\<close>; it issues no other request and does not read the grants. When a first delete
  has returned no error, a second one right after it, on the resource data the first one
  left, returns no error either, provided that the gateway again answers the identity lookup
  and the request that sets the permissions with success.
\<close>

theorem resourceFeedPermissionDelete_twice:
  assumes first: "resourceFeedPermissionDelete clients d w = (None, d1, w1)"
    and key: "GetStorageKey (GraphClient clients) (fp_identity_descriptor d) (remote w1)
                = (Inr key, g1)"
    and ident: "ReadIdentity (IdentityClient clients) key g1 = (Inr identity, g2)"
    and sets: "SetFeedPermissions (FeedClient clients) (fp_feed_id d) (fp_project_id d)
                 [\<lparr>FeedPermission_DisplayName = None,
                   FeedPermission_IdentityDescriptor = Identity_Descriptor identity,
                   FeedPermission_IdentityId = None,
                   FeedPermission_Role = NoneRole\<rparr>] g2 = (Inr ok, g3)"
  shows "d1 = d\<lparr>fp_Id := ''''\<rparr>
       \<and> (\<exists>key0 descriptor0.
            issued w w1 =
              [GetStorageKeyArgs (fp_identity_descriptor d), ReadIdentityArgs key0,
               SetFeedPermissionsArgs (fp_feed_id d) (fp_project_id d)
                 [\<lparr>FeedPermission_DisplayName = None,
                   FeedPermission_IdentityDescriptor = descriptor0,
                   FeedPermission_IdentityId = None,
                   FeedPermission_Role = NoneRole\<rparr>]])
       \<and> resourceFeedPermissionDelete clients d1 w1 =
           (None, d1,
            \<lparr>remote = g3,
             calls = calls w1 @
               [GetStorageKeyArgs (fp_identity_descriptor d), ReadIdentityArgs key,
                SetFeedPermissionsArgs (fp_feed_id d) (fp_project_id d)
                  [\<lparr>FeedPermission_DisplayName = None,
                    FeedPermission_IdentityDescriptor = Identity_Descriptor identity,
                    FeedPermission_IdentityId = None,
                    FeedPermission_Role = NoneRole\<rparr>]]\<rparr>)"
proof -
  from first have d1: "d1 = d\<lparr>fp_Id := ''''\<rparr>"
    by (auto simp: resourceFeedPermissionDelete_def getIdentity_def invoke_eq Let_def
        split: sum.splits prod.splits)
  from first have "\<exists>key0 descriptor0.
            issued w w1 =
              [GetStorageKeyArgs (fp_identity_descriptor d), ReadIdentityArgs key0,
               SetFeedPermissionsArgs (fp_feed_id d) (fp_project_id d)
                 [\<lparr>FeedPermission_DisplayName = None,
                   FeedPermission_IdentityDescriptor = descriptor0,
                   FeedPermission_IdentityId = None,
                   FeedPermission_Role = NoneRole\<rparr>]]"
    by (auto simp: resourceFeedPermissionDelete_def getIdentity_def invoke_eq Let_def issued_def
        split: sum.splits prod.splits)
  moreover from key ident sets
  have "resourceFeedPermissionDelete clients (d\<lparr>fp_Id := ''''\<rparr>) w1 =
           (None, d\<lparr>fp_Id := ''''\<rparr>,
            \<lparr>remote = g3,
             calls = calls w1 @
               [GetStorageKeyArgs (fp_identity_descriptor d), ReadIdentityArgs key,
                SetFeedPermissionsArgs (fp_feed_id d) (fp_project_id d)
                  [\<lparr>FeedPermission_DisplayName = None,
                    FeedPermission_IdentityDescriptor = Identity_Descriptor identity,
                    FeedPermission_IdentityId = None,
                    FeedPermission_Role = NoneRole\<rparr>]]\<rparr>)"
    by (simp add: resourceFeedPermissionDelete_def getIdentity_def invoke_eq Let_def)
  ultimately show ?thesis
    using d1 by simp
qed

theorem resourceFeedPermissionDelete_twice_witness:
  "resourceFeedPermissionDelete (permissionGateway [aliceReader] 9) grantStored start =
     (None, grantA,
      \<lparr>remote = 3,
       calls = [GetStorageKeyArgs ''vssgp.alice'', ReadIdentityArgs ''a11ce'',
                SetFeedPermissionsArgs ''feed-1'' ''proj'' [aliceNone]]\<rparr>)
   \<and> resourceFeedPermissionDelete (permissionGateway [aliceReader] 9) grantA
       \<lparr>remote = 3,
        calls = [GetStorageKeyArgs ''vssgp.alice'', ReadIdentityArgs ''a11ce'',
                 SetFeedPermissionsArgs ''feed-1'' ''proj'' [aliceNone]]\<rparr> =
     (None, grantA,
      \<lparr>remote = 6,
       calls = [GetStorageKeyArgs ''vssgp.alice'', ReadIdentityArgs ''a11ce'',
                SetFeedPermissionsArgs ''feed-1'' ''proj'' [aliceNone],
                GetStorageKeyArgs ''vssgp.alice'', ReadIdentityArgs ''a11ce'',
                SetFeedPermissionsArgs ''feed-1'' ''proj'' [aliceNone]]\<rparr>)"
proof -
  let ?gw = "permissionGateway [aliceReader] 9"
  let ?w1 = "\<lparr>remote = 3,
              calls = [GetStorageKeyArgs ''vssgp.alice'', ReadIdentityArgs ''a11ce'',
                       SetFeedPermissionsArgs ''feed-1'' ''proj'' [aliceNone]]\<rparr> :: nat world"
  have first: "resourceFeedPermissionDelete ?gw grantStored start = (None, grantA, ?w1)"
    by (simp add: resourceFeedPermissionDelete_def getIdentity_def invoke_eq Let_def
        permissionGateway_def offline_def offlineFeedClient_def start_def
        grantStored_def grantA_def alice_def aliceNone_def)
  have key: "GetStorageKey (GraphClient ?gw) (fp_identity_descriptor grantStored) (remote ?w1)
               = (Inr ''a11ce'', 4)"
    by (simp add: permissionGateway_def offline_def)
  have ident: "ReadIdentity (IdentityClient ?gw) ''a11ce'' 4 = (Inr alice, 5)"
    by (simp add: permissionGateway_def offline_def)
  have sets: "SetFeedPermissions (FeedClient ?gw) (fp_feed_id grantStored)
                (fp_project_id grantStored)
                [\<lparr>FeedPermission_DisplayName = None,
                  FeedPermission_IdentityDescriptor = Identity_Descriptor alice,
                  FeedPermission_IdentityId = None,
                  FeedPermission_Role = NoneRole\<rparr>] 5 = (Inr [aliceNone], 6)"
    by (simp add: permissionGateway_def offline_def offlineFeedClient_def alice_def aliceNone_def)
  have fields: "fp_feed_id grantStored = ''feed-1''" "fp_project_id grantStored = ''proj''"
      "fp_identity_descriptor grantStored = ''vssgp.alice''"
      "\<lparr>FeedPermission_DisplayName = None,
        FeedPermission_IdentityDescriptor = Identity_Descriptor alice,
        FeedPermission_IdentityId = None,
        FeedPermission_Role = NoneRole\<rparr> = aliceNone"
    by (simp_all add: grantStored_def grantA_def alice_def aliceNone_def)
  from resourceFeedPermissionDelete_twice [OF first key ident sets, THEN conjunct2, THEN conjunct2]
    first
  show ?thesis
    by (simp add: fields)
qed

text \<open>
  Claim C5 as stated has the second delete never fail. Here the gateway accepts the first
  request that sets the permissions and refuses the next one: the first delete returns no
  error, and the second one, right after it, returns the error of the refused request.
\<close>

theorem resourceFeedPermissionDelete_second_fails_counterexample:
  "resourceFeedPermissionDelete (permissionGateway [aliceReader] 3) grantStored start =
     (None, grantA,
      \<lparr>remote = 3,
       calls = [GetStorageKeyArgs ''vssgp.alice'', ReadIdentityArgs ''a11ce'',
                SetFeedPermissionsArgs ''feed-1'' ''proj'' [aliceNone]]\<rparr>)
   \<and> fst (resourceFeedPermissionDelete (permissionGateway [aliceReader] 3) grantA
       \<lparr>remote = 3,
        calls = [GetStorageKeyArgs ''vssgp.alice'', ReadIdentityArgs ''a11ce'',
                 SetFeedPermissionsArgs ''feed-1'' ''proj'' [aliceNone]]\<rparr>) =
     Some (errorString
       ''deleting feed Permission for Feed : feed-1 and Identity : vssgp.alice, Error: set refused'')"
  by (simp add: resourceFeedPermissionDelete_def getIdentity_def invoke_eq Let_def
      permissionGateway_def offline_def offlineFeedClient_def start_def
      grantStored_def grantA_def alice_def aliceNone_def)

subsection \<open>Group entitlements\<close>

lemma Split_nonempty: "Split s sep \<noteq> []"
  by (induction s) (auto split: list.splits)

lemma Split_Contains:
  "Contains s sep \<Longrightarrow> \<exists>first second pieces. Split s sep = first # second # pieces"
proof (induction s)
  case Nil
  then show ?case by (simp add: Contains_def)
next
  case (Cons c s)
  show ?case
  proof (cases "c = sep")
    case True
    obtain x xs where "Split s sep = x # xs"
      using Split_nonempty [of s sep] by (cases "Split s sep") auto
    with True show ?thesis by simp
  next
    case False
    with Cons.prems have "Contains s sep" by (simp add: Contains_def)
    from Cons.IH [OF this] False show ?thesis by auto
  qed
qed

text \<open>
  Claim C7. When both \<open>origin_id\<close> and \<open>principal_name\<close> are set (not empty),
  \<open>expandGroupEntitlement\<close> fails with the error saying that both are set, and the create of
  the group entitlement returns that error, wrapped, with the resource data and the world
  unchanged: it issues no request.
\<close>

theorem expandGroupEntitlement_both_set:
  assumes "ge_origin_id d \<noteq> ''''" and "ge_principal_name d \<noteq> ''''"
  shows "expandGroupEntitlement h d =
           Returns (Inl (errorString
             (''Both origin_id and principal_name set. You can not use both: origin_id: '' @
              ge_origin_id d @ '' principal_name '' @ ge_principal_name d)))
       \<and> resourceGroupEntitlementCreate h clients d w =
           (Returns (Some (errorString
              (''Creating group entitlement: '' @
               ''Both origin_id and principal_name set. You can not use both: origin_id: '' @
               ge_origin_id d @ '' principal_name '' @ ge_principal_name d))),
            d, w)
       \<and> issued w (snd (snd (resourceGroupEntitlementCreate h clients d w))) = []"
proof -
  have expand: "expandGroupEntitlement h d =
           Returns (Inl (errorString
             (''Both origin_id and principal_name set. You can not use both: origin_id: '' @
              ge_origin_id d @ '' principal_name '' @ ge_principal_name d)))"
  proof (cases "Contains (ge_principal_name d) backslash")
    case True
    from Split_Contains [OF this] obtain first second pieces where
      "Split (ge_principal_name d) backslash = first # second # pieces" by blast
    with True assms show ?thesis
      by (simp add: expandGroupEntitlement_def Let_def)
  next
    case False
    with assms show ?thesis
      by (simp add: expandGroupEntitlement_def Let_def)
  qed
  then show ?thesis
    by (simp add: resourceGroupEntitlementCreate_def issued_def)
qed

theorem expandGroupEntitlement_both_set_witness:
  "resourceGroupEntitlementCreate lenient (offline :: nat AggregatedClient) groupBoth start =
     (Returns (Some (errorString
        (''Creating group entitlement: Both origin_id and principal_name set. '' @
         ''You can not use both: origin_id: 0a1b principal_name contoso'' @ [backslash] @
         ''devs''))),
      groupBoth, start)
   \<and> issued start start = []"
proof -
  have both: "ge_origin_id groupBoth \<noteq> ''''" "ge_principal_name groupBoth \<noteq> ''''"
    by (simp_all add: groupBoth_def)
  have fields: "ge_origin_id groupBoth = ''0a1b''"
      "ge_principal_name groupBoth = ''contoso'' @ [backslash] @ ''devs''"
    by (simp_all add: groupBoth_def)
  from expandGroupEntitlement_both_set [OF both, of lenient "offline :: nat AggregatedClient" start]
  show ?thesis
    by (simp add: fields issued_def)
qed

end
